theory Spec2Isabelle
  imports Complex_Main "HOL-Library.AList" "HOL-Library.Log_Nat"
begin

section \<open>Python values\<close>

text \<open>
  Text is modelled by \<open>string\<close>, read as ASCII text. An optional value is an
  \<open>option\<close>: \<open>None\<close> is Python's \<open>None\<close> (or an absent dictionary key read with
  \<open>.get\<close>). A confidence of the extraction is recorded by the decimal its float
  literal denotes. An exception is a value of the type \<open>error\<close>, returned on the left
  of a sum.
\<close>

datatype error =
    ValueError string
  | IntegrityError
  | OverflowError
  | StorageError

text \<open>Truthiness of an optional string, as in \<^verbatim>\<open>if time:\<close>.\<close>

definition truthy :: "string option \<Rightarrow> bool" where
  "truthy v = (case v of None \<Rightarrow> False | Some s \<Rightarrow> s \<noteq> [])"

text \<open>\<^verbatim>\<open>text.startswith(p)\<close> and the substring test \<^verbatim>\<open>p in text\<close>.\<close>

fun startswith :: "string \<Rightarrow> string \<Rightarrow> bool" where
  "startswith text [] = True"
| "startswith [] (c # p) = False"
| "startswith (x # text) (c # p) = (x = c \<and> startswith text p)"

fun contains :: "string \<Rightarrow> string \<Rightarrow> bool" where
  "contains p [] = (p = [])"
| "contains p (x # text) = (startswith (x # text) p \<or> contains p text)"

section \<open>Python strings and a backtracking matcher for the patterns of the source\<close>

text \<open>
  The character classes, on ASCII: \<open>\d\<close> is \<open>digits\<close>, \<open>\s\<close> is \<open>whitespace\<close>, \<open>\w\<close> is
  \<open>word_chars\<close>. \<open>lower\<close> and \<open>upper\<close> change the ASCII letters only.
\<close>

definition ascii_uppercase :: string where
  "ascii_uppercase = ''ABCDEFGHIJKLMNOPQRSTUVWXYZ''"

definition ascii_lowercase :: string where
  "ascii_lowercase = ''abcdefghijklmnopqrstuvwxyz''"

definition digits :: string where
  "digits = ''0123456789''"

definition whitespace :: string where
  "whitespace = [CHR '' '', CHR 0x09, CHR 0x0A, CHR 0x0B, CHR 0x0C, CHR 0x0D,
                 CHR 0x1C, CHR 0x1D, CHR 0x1E, CHR 0x1F]"

definition word_chars :: string where
  "word_chars = ascii_lowercase @ ascii_uppercase @ digits @ ''_''"

definition lower_char :: "char \<Rightarrow> char" where
  "lower_char c = (case map_of (zip ascii_uppercase ascii_lowercase) c of Some l \<Rightarrow> l | None \<Rightarrow> c)"

definition lower :: "string \<Rightarrow> string" where
  "lower s = map lower_char s"

definition upper_char :: "char \<Rightarrow> char" where
  "upper_char c = (case map_of (zip ascii_lowercase ascii_uppercase) c of Some u \<Rightarrow> u | None \<Rightarrow> c)"

definition upper :: "string \<Rightarrow> string" where
  "upper s = map upper_char s"

definition lstrip :: "string \<Rightarrow> string \<Rightarrow> string" where
  "lstrip cs s = dropWhile (\<lambda>c. c \<in> set cs) s"

definition strip :: "string \<Rightarrow> string" where
  "strip s = rev (lstrip whitespace (rev (lstrip whitespace s)))"

text \<open>
  The patterns the source gives to \<open>re.search\<close>, and those \<open>strptime\<close> builds from
  its format, use: a character of a class, the word boundary \<open>\b\<close>, sequence,
  alternation (the left branch tried first), a greedy repetition of a class between two
  bounds (the upper one optional), and a capturing group with its number.
\<close>

datatype rx =
    Eps
  | Cls string
  | WordB
  | Seq rx rx
  | Alt rx rx
  | Rep string nat "nat option"
  | Grp nat rx

type_synonym mstate = "char option \<times> string \<times> (nat \<times> string) list"

definition is_word :: "char option \<Rightarrow> bool" where
  "is_word c = (case c of None \<Rightarrow> False | Some x \<Rightarrow> x \<in> set word_chars)"

definition next_char :: "string \<Rightarrow> char option" where
  "next_char s = (case s of [] \<Rightarrow> None | c # _ \<Rightarrow> Some c)"

definition last_char :: "char option \<Rightarrow> string \<Rightarrow> char option" where
  "last_char p s = (case rev s of [] \<Rightarrow> p | c # _ \<Rightarrow> Some c)"

text \<open>
  A match state is the character before the position, the text left, and the groups
  captured so far (the latest first). \<open>rx_match\<close> lists the states after every way of
  matching at the position, in the order a backtracking matcher tries them: the head is
  the match Python reports.
\<close>

fun rx_match :: "rx \<Rightarrow> mstate \<Rightarrow> mstate list" where
  "rx_match Eps s = [s]"
| "rx_match (Cls cs) (p, r, caps) =
     (case r of [] \<Rightarrow> [] | c # r' \<Rightarrow> if c \<in> set cs then [(Some c, r', caps)] else [])"
| "rx_match WordB (p, r, caps) =
     (if is_word p = is_word (next_char r) then [] else [(p, r, caps)])"
| "rx_match (Seq a b) s = concat (map (rx_match b) (rx_match a s))"
| "rx_match (Alt a b) s = rx_match a s @ rx_match b s"
| "rx_match (Rep cs m n) (p, r, caps) =
     (let run = length (takeWhile (\<lambda>c. c \<in> set cs) r);
          k = (case n of None \<Rightarrow> run | Some n' \<Rightarrow> min run n')
      in map (\<lambda>j. (last_char p (take j r), drop j r, caps)) (rev [m ..< Suc k]))"
| "rx_match (Grp i a) (p, r, caps) =
     map (\<lambda>(p', r', caps'). (p', r', (i, take (length r - length r') r) # caps'))
       (rx_match a (p, r, caps))"

text \<open>\<open>re.search\<close>: the first match at the leftmost position that has one.\<close>

fun search_from :: "rx \<Rightarrow> char option \<Rightarrow> string \<Rightarrow> mstate option" where
  "search_from r p [] = (case rx_match r (p, [], []) of [] \<Rightarrow> None | m # _ \<Rightarrow> Some m)"
| "search_from r p (c # s) =
     (case rx_match r (p, c # s, []) of [] \<Rightarrow> search_from r (Some c) s | m # _ \<Rightarrow> Some m)"

definition re_search :: "rx \<Rightarrow> string \<Rightarrow> (nat \<times> string) list option" where
  "re_search r s = map_option (\<lambda>(p, rest, caps). caps) (search_from r None s)"

definition lit :: "string \<Rightarrow> rx" where
  "lit s = foldr (\<lambda>c r. Seq (Cls [c]) r) s Eps"

definition seqs :: "rx list \<Rightarrow> rx" where
  "seqs rs = foldr Seq rs Eps"

definition opt :: "rx \<Rightarrow> rx" where
  "opt r = Alt r Eps"

subsection \<open>time_utils.py\<close>

text \<open>
  \<open>TIME_12H\<close> is \<^verbatim>\<open>\b(\d{1,2})(?::(\d{2}))?\s*(am|pm)\b\<close> and \<open>TIME_24H\<close> is
  \<^verbatim>\<open>\b([01]?\d|2[0-3]):([0-5]\d)\b\<close>.
\<close>

definition TIME_12H :: rx where
  "TIME_12H = seqs [WordB, Grp 1 (Rep digits 1 (Some 2)),
                    opt (Seq (lit '':'') (Grp 2 (Rep digits 2 (Some 2)))),
                    Rep whitespace 0 None, Grp 3 (Alt (lit ''am'') (lit ''pm'')), WordB]"


definition TIME_24H :: rx where
  "TIME_24H = seqs [WordB,
                    Grp 1 (Alt (Seq (opt (Cls ''01'')) (Cls digits)) (Seq (lit ''2'') (Cls ''0123''))),
                    lit '':'', Grp 2 (Seq (Cls ''012345'') (Cls digits)), WordB]"

text \<open>\<open>int\<close> of a string of digits, and the zero-padded decimal formats.\<close>

definition digit_value :: "char \<Rightarrow> nat" where
  "digit_value c = (case map_of (zip digits [0 ..< 10]) c of Some d \<Rightarrow> d | None \<Rightarrow> 0)"

definition int_of :: "string \<Rightarrow> nat" where
  "int_of s = foldl (\<lambda>n c. 10 * n + digit_value c) 0 s"

definition digit_char :: "nat \<Rightarrow> char" where
  "digit_char d = (case map_of (zip [0 ..< 10] digits) d of Some c \<Rightarrow> c | None \<Rightarrow> CHR ''0'')"

definition pad2 :: "nat \<Rightarrow> string" where
  "pad2 n = (if n < 100 then [digit_char (n div 10), digit_char (n mod 10)]
             else [digit_char (n div 100 mod 10), digit_char (n div 10 mod 10), digit_char (n mod 10)])"

definition pad4 :: "nat \<Rightarrow> string" where
  "pad4 n = [digit_char (n div 1000 mod 10), digit_char (n div 100 mod 10),
             digit_char (n div 10 mod 10), digit_char (n mod 10)]"

text \<open>
  \<open>m.group(i)\<close> as an option, as a string for a group that takes part in every match,
  and \<open>m.group(i) or d\<close>.
\<close>

definition group :: "(nat \<times> string) list \<Rightarrow> nat \<Rightarrow> string option" where
  "group m i = map_of m i"

definition the_group :: "(nat \<times> string) list \<Rightarrow> nat \<Rightarrow> string" where
  "the_group m i = (case map_of m i of None \<Rightarrow> [] | Some g \<Rightarrow> g)"

definition group_or :: "(nat \<times> string) list \<Rightarrow> nat \<Rightarrow> string \<Rightarrow> string" where
  "group_or m i d = (case map_of m i of None \<Rightarrow> d | Some g \<Rightarrow> if g = [] then d else g)"

text \<open>\<open>datetime.time(hour, minute)\<close> raises \<open>ValueError\<close> out of range.\<close>

definition mk_time :: "nat \<Rightarrow> nat \<Rightarrow> error + nat \<times> nat" where
  "mk_time hour minute =
     (if 23 < hour then Inl (ValueError ''hour must be in 0..23'')
      else if 59 < minute then Inl (ValueError ''minute must be in 0..59'')
      else Inr (hour, minute))"

text \<open>\<^verbatim>\<open>t.strftime("%I:%M %p")\<close>.\<close>

definition strftime_I_M_p :: "nat \<times> nat \<Rightarrow> string" where
  "strftime_I_M_p t =
     (case t of (hour, minute) \<Rightarrow>
        pad2 (if hour mod 12 = 0 then 12 else hour mod 12) @ '':'' @ pad2 minute @ '' ''
          @ (if hour < 12 then ''AM'' else ''PM''))"

definition normalize_time :: "string \<Rightarrow> error + string option" where
  "normalize_time text =
     (if text = [] then Inr None
      else
        let s = lower text in
        case re_search TIME_12H s of
          Some m \<Rightarrow>
            (let hour = int_of (the_group m 1);
                 minute = int_of (group_or m 2 ''0'');
                 period = lower (the_group m 3);
                 hour = (if period = ''pm'' \<and> hour \<noteq> 12 then hour + 12 else hour);
                 hour = (if period = ''am'' \<and> hour = 12 then 0 else hour)
             in case mk_time hour minute of
                  Inl e \<Rightarrow> Inl e
                | Inr t \<Rightarrow> Inr (Some (lstrip ''0'' (strftime_I_M_p t))))
        | None \<Rightarrow>
            (case re_search TIME_24H s of
               Some m2 \<Rightarrow>
                 (let hour = int_of (the_group m2 1);
                      minute = int_of (the_group m2 2)
                  in case mk_time hour minute of
                       Inl e \<Rightarrow> Inl e
                     | Inr t \<Rightarrow> Inr (Some (lstrip ''0'' (strftime_I_M_p t))))
             | None \<Rightarrow> Inr None))"


subsection \<open>booking_logic.py: the date parser\<close>

text \<open>
  A calendar date of \<open>datetime\<close>. \<open>mk_date\<close> is its constructor, which raises
  \<open>ValueError\<close> on a date that does not exist; \<open>add_one_day\<close> is
  \<open>today + timedelta(days=1)\<close>, which raises \<open>OverflowError\<close> after the last day of the
  year 9999.
\<close>

record pydate =
  year :: nat
  month :: nat
  day :: nat

definition is_leap :: "nat \<Rightarrow> bool" where
  "is_leap y = (if y mod 400 = 0 then True else if y mod 100 = 0 then False else y mod 4 = 0)"

definition days_in_month :: "nat \<Rightarrow> nat \<Rightarrow> nat" where
  "days_in_month y m =
     (if m = 2 then (if is_leap y then 29 else 28)
      else if m \<in> set [4, 6, 9, 11] then 30 else 31)"

definition mk_date :: "nat \<Rightarrow> nat \<Rightarrow> nat \<Rightarrow> error + pydate" where
  "mk_date y m d =
     (if y < 1 \<or> 9999 < y then Inl (ValueError ''year is out of range'')
      else if m < 1 \<or> 12 < m then Inl (ValueError ''month must be in 1..12'')
      else if d < 1 \<or> days_in_month y m < d then Inl (ValueError ''day is out of range for month'')
      else Inr \<lparr>year = y, month = m, day = d\<rparr>)"

definition add_one_day :: "pydate \<Rightarrow> error + pydate" where
  "add_one_day t =
     (if day t < days_in_month (year t) (month t) then Inr (t\<lparr>day := day t + 1\<rparr>)
      else if month t < 12 then Inr (t\<lparr>month := month t + 1, day := 1\<rparr>)
      else if year t < 9999 then Inr \<lparr>year = year t + 1, month = 1, day = 1\<rparr>
      else Inl OverflowError)"

definition isoformat :: "pydate \<Rightarrow> string" where
  "isoformat t = pad4 (year t) @ ''-'' @ pad2 (month t) @ ''-'' @ pad2 (day t)"

text \<open>
  \<open>strptime\<close> turns its format into a pattern, matches it at the start of the text, and
  refuses a match that leaves text over. The directives are, in its words,
  \<^verbatim>\<open>(?P<d>3[0-1]|[1-2]\d|0[1-9]|[1-9]| [1-9])\<close>, \<^verbatim>\<open>(?P<m>1[0-2]|0[1-9]|[1-9])\<close>,
  \<^verbatim>\<open>(?P<Y>\d\d\d\d)\<close> and \<^verbatim>\<open>(?P<y>\d\d)\<close>; a two-digit year up to 68 is in 2000.
  The groups are numbered 1 for the day, 2 for the month, 3 and 4 for the year.
\<close>

definition nonzero_digits :: string where
  "nonzero_digits = ''123456789''"

definition DIRECTIVE_d :: rx where
  "DIRECTIVE_d = Grp 1 (Alt (Seq (lit ''3'') (Cls ''01''))
                       (Alt (Seq (Cls ''12'') (Cls digits))
                       (Alt (Seq (lit ''0'') (Cls nonzero_digits))
                       (Alt (Cls nonzero_digits)
                            (Seq (lit '' '') (Cls nonzero_digits))))))"

definition DIRECTIVE_m :: rx where
  "DIRECTIVE_m = Grp 2 (Alt (Seq (lit ''1'') (Cls ''012''))
                       (Alt (Seq (lit ''0'') (Cls nonzero_digits))
                            (Cls nonzero_digits)))"

definition DIRECTIVE_Y :: rx where
  "DIRECTIVE_Y = Grp 3 (Rep digits 4 (Some 4))"

definition DIRECTIVE_y :: rx where
  "DIRECTIVE_y = Grp 4 (Rep digits 2 (Some 2))"

definition strptime :: "string \<Rightarrow> rx \<Rightarrow> error + pydate" where
  "strptime data_string format_regex =
     (case rx_match format_regex (None, data_string, []) of
        [] \<Rightarrow> Inl (ValueError ''time data does not match format'')
      | (p, rest, found) # _ \<Rightarrow>
          if rest \<noteq> [] then Inl (ValueError ''unconverted data remains'')
          else
            (let y = (case group found 3 of
                        Some g \<Rightarrow> int_of g
                      | None \<Rightarrow>
                          (case group found 4 of
                             Some g \<Rightarrow> (if int_of g \<le> 68 then 2000 + int_of g else 1900 + int_of g)
                           | None \<Rightarrow> 1900));
                 m = int_of (the_group found 2);
                 d = int_of (the_group found 1)
             in mk_date y m d))"

definition FMT_dmY :: rx where
  "FMT_dmY = seqs [DIRECTIVE_d, lit ''/'', DIRECTIVE_m, lit ''/'', DIRECTIVE_Y]"

definition FMT_dmy :: rx where
  "FMT_dmy = seqs [DIRECTIVE_d, lit ''/'', DIRECTIVE_m, lit ''/'', DIRECTIVE_y]"

definition FMT_Ymd :: rx where
  "FMT_Ymd = seqs [DIRECTIVE_Y, lit ''-'', DIRECTIVE_m, lit ''-'', DIRECTIVE_d]"

text \<open>
  The two patterns of \<open>_parse_date\<close>: \<^verbatim>\<open>(\d{1,2}/\d{1,2}/\d{2,4})\<close> and
  \<^verbatim>\<open>(\d{4}-\d{1,2}-\d{1,2})\<close>.
\<close>

definition DATE_SLASHES :: rx where
  "DATE_SLASHES = Grp 1 (seqs [Rep digits 1 (Some 2), lit ''/'', Rep digits 1 (Some 2), lit ''/'',
                                Rep digits 2 (Some 4)])"

definition DATE_DASHES :: rx where
  "DATE_DASHES = Grp 1 (seqs [Rep digits 4 (Some 4), lit ''-'', Rep digits 1 (Some 2), lit ''-'',
                               Rep digits 1 (Some 2)])"

text \<open>The loop over the two formats: the first that parses wins, an error moves on.\<close>

fun first_parse :: "string \<Rightarrow> rx list \<Rightarrow> pydate option" where
  "first_parse data_string [] = None"
| "first_parse data_string (fmt # fmts) =
     (case strptime data_string fmt of
        Inr d \<Rightarrow> Some d
      | Inl e \<Rightarrow> first_parse data_string fmts)"

definition parse_dashes :: "string \<Rightarrow> string option" where
  "parse_dashes text =
     (case re_search DATE_DASHES text of
        Some m2 \<Rightarrow>
          (case strptime (the_group m2 1) FMT_Ymd of
             Inr d \<Rightarrow> Some (isoformat d)
           | Inl e \<Rightarrow> None)
      | None \<Rightarrow> None)"

text \<open>
  \<open>_parse_date\<close>, with the date of the clock as the argument \<open>today\<close>.
\<close>

definition parse_date :: "pydate \<Rightarrow> string \<Rightarrow> error + string option" where
  "parse_date today text0 =
     (let text = lower text0 in
      if contains ''today'' text then Inr (Some (isoformat today))
      else if contains ''tomorrow'' text then
        (case add_one_day today of
           Inl e \<Rightarrow> Inl e
         | Inr d \<Rightarrow> Inr (Some (isoformat d)))
      else
        (case re_search DATE_SLASHES text of
           Some m \<Rightarrow>
             (case first_parse (the_group m 1) [FMT_dmY, FMT_dmy] of
                Some d \<Rightarrow> Inr (Some (isoformat d))
              | None \<Rightarrow> Inr (parse_dashes text))
         | None \<Rightarrow> Inr (parse_dashes text)))"


section \<open>bookings_store.py: the bookings table\<close>

type_synonym meta = "(string \<times> string) list"

text \<open>
  A row of the table \<open>bookings\<close>. Every column but the key is nullable. The store is the
  list of rows in insertion order.
\<close>

record booking =
  b_id :: string
  b_service :: "string option"
  b_date :: "string option"
  b_time :: "string option"
  b_location :: "string option"
  b_created_at :: string
  b_meta :: meta

type_synonym store = "booking list"

text \<open>
  \<open>add_booking\<close>: the identifier drawn by \<open>uuid4\<close> and the clock's timestamp are
  arguments. The column \<open>id\<close> is the primary key of the table, so an insertion
  under an identifier already present is refused by the database.
\<close>

definition add_booking ::
  "store \<Rightarrow> string \<Rightarrow> string \<Rightarrow> string option \<Rightarrow> string option \<Rightarrow> string option
     \<Rightarrow> string option \<Rightarrow> meta \<Rightarrow> (error + booking) \<times> store" where
  "add_booking st booking_id created_at service date time location meta_v =
     (if booking_id \<in> set (map b_id st) then (Inl IntegrityError, st)
      else
        (let entry = \<lparr>b_id = booking_id, b_service = service, b_date = date,
                       b_time = time, b_location = location,
                       b_created_at = created_at, b_meta = meta_v\<rparr>
         in (Inr entry, st @ [entry])))"

text \<open>\<open>remove_booking\<close>: delete the rows with this key; report whether any row went.\<close>

definition remove_booking :: "store \<Rightarrow> string \<Rightarrow> bool \<times> store" where
  "remove_booking st booking_id =
     (let new = filter (\<lambda>b. b_id b \<noteq> booking_id) st
      in (length new < length st, new))"

text \<open>
  \<open>find_bookings\<close>: each filter applies only when its argument is truthy; a
  \<open>NULL\<close> column equals no argument.
\<close>

definition find_bookings ::
  "store \<Rightarrow> string option \<Rightarrow> string option \<Rightarrow> string option \<Rightarrow> booking list" where
  "find_bookings st service date time =
     filter (\<lambda>b. (if truthy service then b_service b = service else True)
               \<and> (if truthy date then b_date b = date else True)
               \<and> (if truthy time then b_time b = time else True)) st"

section \<open>slot_engine.py\<close>

definition AVAILABLE_SLOTS :: "(string \<times> string list) list" where
  "AVAILABLE_SLOTS =
     [(''spa'', [''9:00 AM'', ''10:00 AM'', ''11:00 AM'', ''4:00 PM'']),
      (''salon'', [''10:00 AM'', ''12:00 PM'', ''3:00 PM'']),
      (''facial'', [''10:00 AM'', ''11:00 AM'', ''3:00 PM'']),
      (''dental'', [''9:00 AM'', ''11:00 AM'', ''2:00 PM'']),
      (''doctor'', [''9:00 AM'', ''1:00 PM'', ''6:00 PM'']),
      (''head spa'', [''10:00 AM'', ''2:00 PM'']),
      (''hotel'', [''Anytime'']),
      (''travel'', [''Morning'', ''Evening''])]"

definition check_availability ::
  "store \<Rightarrow> string \<Rightarrow> string option \<Rightarrow> string option \<Rightarrow> bool \<times> string list" where
  "check_availability st service date time =
     (case map_of AVAILABLE_SLOTS service of
        None \<Rightarrow> (True, [''Anytime''])
      | Some slots \<Rightarrow>
          if ''Anytime'' \<in> set slots then (True, slots)
          else if \<not> truthy time then (True, slots)
          else if find_bookings st (Some service) date time \<noteq> []
               then (False, filter (\<lambda>s. Some s \<noteq> time) slots)
          else (True, slots))"

definition slot_conflict :: error where
  "slot_conflict = ValueError ''Requested time is not available''"

definition book_slot ::
  "store \<Rightarrow> string \<Rightarrow> string \<Rightarrow> string \<Rightarrow> string \<Rightarrow> string \<Rightarrow> string option \<Rightarrow> meta option
     \<Rightarrow> (error + booking) \<times> store" where
  "book_slot st booking_id created_at service date time location meta_v =
     (let (available, slots) = check_availability st service (Some date) (Some time)
      in if \<not> available then (Inl slot_conflict, st)
         else add_booking st booking_id created_at (Some service) (Some date) (Some time)
                location (case meta_v of None \<Rightarrow> [] | Some m \<Rightarrow> m))"

definition cancel_booking :: "store \<Rightarrow> string \<Rightarrow> bool \<times> store" where
  "cancel_booking st booking_id = remove_booking st booking_id"

text \<open>
  \<open>find_next_available\<close> scans the catalog in its order. The store it reads is given
  as a sum: \<open>Inl e\<close> is a store whose every query raises \<open>e\<close>.
\<close>

fun scan_slots ::
  "error + store \<Rightarrow> string \<Rightarrow> string option \<Rightarrow> string option \<Rightarrow> string list \<Rightarrow> string list
     \<Rightarrow> error + (string \<times> string list) option" where
  "scan_slots db service date after_time slots [] = Inr None"
| "scan_slots db service date after_time slots (s # rest) =
     (if truthy after_time \<and> Some s = after_time
      then scan_slots db service date after_time slots rest
      else (case db of
              Inl e \<Rightarrow> Inl e
            | Inr st \<Rightarrow>
                if find_bookings st (Some service) date (Some s) = []
                then Inr (Some (s, slots))
                else scan_slots db service date after_time slots rest))"

definition find_next_available ::
  "error + store \<Rightarrow> string \<Rightarrow> string option \<Rightarrow> string option
     \<Rightarrow> error + (string \<times> string list) option" where
  "find_next_available db service date after_time =
     (case map_of AVAILABLE_SLOTS service of
        None \<Rightarrow> Inr None
      | Some slots \<Rightarrow> scan_slots db service date after_time slots slots)"


section \<open>Predicates used in the statements about the slot engine\<close>

text \<open>A stored booking is for exactly this service, date and time.\<close>

definition exact_match :: "booking \<Rightarrow> string \<Rightarrow> string option \<Rightarrow> string option \<Rightarrow> bool" where
  "exact_match b service date time =
     (b_service b = Some service \<and> b_date b = date \<and> b_time b = time)"

text \<open>
  A stored booking is for this service and time, and for this date when a date is given.
\<close>

definition slot_taken :: "booking \<Rightarrow> string \<Rightarrow> string option \<Rightarrow> string option \<Rightarrow> bool" where
  "slot_taken b service date time =
     (b_service b = Some service \<and> (if truthy date then b_date b = date else True)
      \<and> b_time b = time)"

text \<open>A service with no catalog, or whose catalog holds \<open>Anytime\<close>.\<close>

definition always_available :: "string \<Rightarrow> bool" where
  "always_available service =
     (case map_of AVAILABLE_SLOTS service of
        None \<Rightarrow> True
      | Some slots \<Rightarrow> ''Anytime'' \<in> set slots)"

text \<open>The booking of the test \<open>test_booking_flow\<close>.\<close>

definition demo_booking :: booking where
  "demo_booking = \<lparr>b_id = ''bkg_1'', b_service = Some ''spa'', b_date = Some ''2099-01-01'',
     b_time = Some ''9:00 AM'', b_location = Some ''bangalore'',
     b_created_at = ''2026-11-03T00:00:00Z'', b_meta = []\<rparr>"

section \<open>Python floats\<close>

text \<open>
  A finite double is modelled by the rational number it is. \<open>fl\<close> rounds a rational to
  the nearest double, a tie going to the even significand: 53 bits at the exponent of the
  number, and never below the exponent \<open>-1074\<close> of the subnormal numbers. The exponent
  is not bounded above: a result of magnitude \<open>2^1024\<close> or more, an infinity in Python,
  is outside the model, as are the infinities and the not-a-number values themselves.
  The float literal \<open>0.15\<close> is \<open>fl (15 / 100)\<close>.
\<close>

text \<open>The quotient \<open>n / d\<close> of two integers, \<open>d\<close> positive, rounded to the nearest integer.\<close>

definition round_half_even_div :: "int \<Rightarrow> int \<Rightarrow> int" where
  "round_half_even_div n d =
     (let q = n div d; r = n mod d
      in if 2 * r < d then q
         else if d < 2 * r then q + 1
         else if even q then q else q + 1)"

definition round_half_even :: "rat \<Rightarrow> int" where
  "round_half_even x = round_half_even_div (fst (quotient_of x)) (snd (quotient_of x))"

definition pow2 :: "int \<Rightarrow> rat" where
  "pow2 e = (if 0 \<le> e then 2 ^ nat e else 1 / 2 ^ nat (- e))"

text \<open>
  The exponent of a positive rational \<open>a / b\<close>, the floor of its binary logarithm: the
  difference of the bit lengths of \<open>a\<close> and \<open>b\<close>, or one less.
\<close>

definition ilog2 :: "rat \<Rightarrow> int" where
  "ilog2 q =
     (let a = fst (quotient_of q); b = snd (quotient_of q);
          d = bitlen a - bitlen b
      in if (if 0 \<le> d then b * 2 ^ nat d \<le> a else b \<le> a * 2 ^ nat (- d)) then d else d - 1)"

text \<open>The integer nearest to \<open>q / 2^e\<close>, a tie going to the even one.\<close>

definition significand :: "rat \<Rightarrow> int \<Rightarrow> int" where
  "significand q e =
     (let a = fst (quotient_of q); b = snd (quotient_of q)
      in if 0 \<le> e then round_half_even_div a (b * 2 ^ nat e)
         else round_half_even_div (a * 2 ^ nat (- e)) b)"

definition fl :: "rat \<Rightarrow> rat" where
  "fl q =
     (if q = 0 then 0
      else
        (let e = max (ilog2 \<bar>q\<bar> - 52) (- 1074)
         in sgn q * of_int (significand \<bar>q\<bar> e) * pow2 e))"

text \<open>The operations on doubles round the exact result.\<close>

definition fadd :: "rat \<Rightarrow> rat \<Rightarrow> rat" where
  "fadd x y = fl (x + y)"

definition fsub :: "rat \<Rightarrow> rat \<Rightarrow> rat" where
  "fsub x y = fl (x - y)"

definition fmul :: "rat \<Rightarrow> rat \<Rightarrow> rat" where
  "fmul x y = fl (x * y)"

definition fdiv :: "rat \<Rightarrow> rat \<Rightarrow> rat" where
  "fdiv x y = fl (x / y)"

text \<open>
  \<open>round(x, n)\<close> on a double: the exact value of \<open>x\<close> is rounded to \<open>n\<close> decimals, a tie
  going to the even digit, and the double nearest to that decimal is returned.
\<close>

definition py_round :: "rat \<Rightarrow> nat \<Rightarrow> rat" where
  "py_round x n = fl (of_int (round_half_even (x * 10 ^ n)) / 10 ^ n)"

text \<open>
  \<open>sum\<close> of a list of doubles. Its result depends on the version of Python: up to 3.11
  it adds from the left, from 3.12 it compensates the rounding errors. The functions that
  call \<open>sum\<close> take it as the argument \<open>fsum\<close>; \<open>sum_left\<close> is the sum from the left.
\<close>

definition sum_left :: "rat list \<Rightarrow> rat" where
  "sum_left xs = foldl fadd 0 xs"

section \<open>pricing.py\<close>

definition BASE_PRICES :: "(string \<times> rat) list" where
  "BASE_PRICES =
     [(''spa'', 50), (''salon'', 40), (''doctor'', 100), (''head spa'', 60), (''facial'', 27),
      (''dental'', 80), (''hotel'', 150), (''travel'', 80), (''appointment'', 30),
      (''flight'', 200)]"

definition INDIAN_CITIES :: "string list" where
  "INDIAN_CITIES = [''bangalore'', ''bengaluru'', ''delhi'', ''mumbai'', ''chennai'',
     ''hyderabad'', ''vijayawada'', ''mangalagiri'', ''kolkata'', ''pune'', ''ahmedabad'']"

text \<open>
  The exchange-rate environment of \<open>_get_rate\<close>: the entry \<open>INR\<close> of the cache
  \<open>_FX_CACHE\<close>, the variable \<open>FX_API_KEY\<close>, and the rate the remote service would
  answer (\<open>None\<close> when the request fails or carries no rate). A rate is given by its
  decimal and read as the double nearest to it.
\<close>

record fx_env =
  fx_cache :: "rat option"
  fx_api_key :: "string option"
  fx_live :: "rat option"

text \<open>\<open>_get_rate\<close> returns the rate and the cache it leaves.\<close>

definition get_rate :: "fx_env \<Rightarrow> rat \<times> rat option" where
  "get_rate env =
     (case fx_cache env of
        Some r \<Rightarrow> (fl r, Some (fl r))
      | None \<Rightarrow>
          (case (if truthy (fx_api_key env) then fx_live env else None) of
             Some rate \<Rightarrow> if fl rate \<noteq> 0 then (fl rate, Some (fl rate)) else (82, Some 82)
           | None \<Rightarrow> (82, Some 82)))"

definition meta_get :: "meta option \<Rightarrow> string \<Rightarrow> string option" where
  "meta_get meta_v k = (case meta_v of None \<Rightarrow> None | Some m \<Rightarrow> if m = [] then None else map_of m k)"

text \<open>
  \<open>calculate_price\<close>. The confidence is the double given, which is only compared. The
  result is the triple returned and the cache left.
\<close>

definition calculate_price ::
  "fx_env \<Rightarrow> string \<Rightarrow> rat \<Rightarrow> meta option \<Rightarrow> string option \<Rightarrow> (rat \<times> rat \<times> string) \<times> rat option" where
  "calculate_price env service confidence_pct meta_v location =
     (let base = (case map_of BASE_PRICES service of Some p \<Rightarrow> p | None \<Rightarrow> 50);
          discount = (if 90 \<le> confidence_pct then 15
                      else if 75 \<le> confidence_pct then 10
                      else if 50 \<le> confidence_pct then 5
                      else 0);
          discount = (if meta_get meta_v ''loyalty_tier'' = Some ''gold''
                      then fadd discount 5 else discount);
          final_usd = py_round (fmul base (fsub 1 (fdiv discount 100))) 2;
          currency = (if truthy (meta_get meta_v ''currency'')
                      then upper (case meta_get meta_v ''currency'' of Some c \<Rightarrow> c | None \<Rightarrow> [])
                      else if truthy location
                              \<and> lower (case location of Some l \<Rightarrow> l | None \<Rightarrow> []) \<in> set INDIAN_CITIES
                      then ''INR''
                      else ''USD'')
      in if currency = ''INR''
         then (let (EXCHANGE_RATE, cache) = get_rate env
               in ((py_round (fmul final_usd EXCHANGE_RATE) 2, discount, currency), cache))
         else ((final_usd, discount, currency), fx_cache env))"

text \<open>The rules of the pricing claim, in the claim's words.\<close>

definition tier_discount :: "rat \<Rightarrow> rat" where
  "tier_discount confidence_pct =
     (if 90 \<le> confidence_pct then 15 else if 75 \<le> confidence_pct then 10
      else if 50 \<le> confidence_pct then 5 else 0)"

definition loyalty_bonus :: "meta option \<Rightarrow> rat" where
  "loyalty_bonus meta_v = (if meta_get meta_v ''loyalty_tier'' = Some ''gold'' then 5 else 0)"

definition base_price :: "string \<Rightarrow> rat" where
  "base_price service = (case map_of BASE_PRICES service of Some p \<Rightarrow> p | None \<Rightarrow> 50)"

text \<open>
  The discounted price in dollars: the double nearest to the base price less the
  discount in percent.
\<close>

definition discounted_usd :: "string \<Rightarrow> rat \<Rightarrow> rat" where
  "discounted_usd service discount = fl (base_price service * (1 - discount / 100))"

text \<open>The currency as the claim words it: \<open>meta.currency\<close> itself, the location itself.\<close>

definition claimed_currency :: "meta option \<Rightarrow> string option \<Rightarrow> string" where
  "claimed_currency meta_v location =
     (case meta_get meta_v ''currency'' of
        Some c \<Rightarrow> c
      | None \<Rightarrow> (case location of
                   Some l \<Rightarrow> if l \<in> set INDIAN_CITIES then ''INR'' else ''USD''
                 | None \<Rightarrow> ''USD''))"

text \<open>The currency as amended: the given code in upper case, the location in lower case.\<close>

definition chosen_currency :: "meta option \<Rightarrow> string option \<Rightarrow> string" where
  "chosen_currency meta_v location =
     (case meta_get meta_v ''currency'' of
        Some c \<Rightarrow> if c \<noteq> [] then upper c
                 else (case location of
                         Some l \<Rightarrow> if lower l \<in> set INDIAN_CITIES then ''INR'' else ''USD''
                       | None \<Rightarrow> ''USD'')
      | None \<Rightarrow> (case location of
                   Some l \<Rightarrow> if lower l \<in> set INDIAN_CITIES then ''INR'' else ''USD''
                 | None \<Rightarrow> ''USD''))"

text \<open>The environment of the demo: nothing cached, no key.\<close>

definition demo_fx :: fx_env where
  "demo_fx = \<lparr>fx_cache = None, fx_api_key = None, fx_live = None\<rparr>"

section \<open>booking_logic.py: the extraction\<close>

text \<open>
  A turn of the conversation; \<open>content = None\<close> is a turn without the key, read as the
  empty text.
\<close>

record message =
  role :: string
  content :: "string option"

text \<open>
  The dictionary \<open>extract_booking_state\<close> returns. \<open>confidences\<close> is the dictionary of
  the four confidences, in insertion order.
\<close>

record booking_state =
  service :: "string option"
  date :: "string option"
  time :: "string option"
  location :: "string option"
  intent :: string
  delegated :: bool
  location_auto_selected :: bool
  service_auto_selected :: bool
  confidences :: "(string \<times> rat) list"
  ambiguities :: "string list"
  explanation :: string

text \<open>
  The variables of the loop: the dictionary \<open>state\<close>, \<open>confidences\<close>, \<open>ambiguities\<close>,
  the list \<open>explanations\<close> (joined into \<open>explanation\<close> at the end) and the local
  \<open>explicit_location\<close>, \<open>None\<close> while it is unbound.
\<close>

record loop_vars = booking_state +
  explanations :: "string list"
  explicit_location :: "string option"

definition SERVICES :: "string list" where
  "SERVICES = [''hotel'', ''flight'', ''appointment'', ''spa'', ''salon'', ''head spa'',
               ''hospital'', ''doctor'', ''travel'']"

definition CITIES :: "string list" where
  "CITIES = [''bangalore'', ''delhi'', ''mumbai'', ''chennai'', ''hyderabad'', ''mangalagiri'',
             ''vijayawada'']"

definition delegation_phrases :: "string list" where
  "delegation_phrases = [''you decide'', ''you pick'', ''you choose'', ''book it'', ''do it'',
     ''go ahead'', ''surprise me'', ''anything works'', ''i don't care'', ''i dont care'',
     ''up to you'', ''whatever you think'']"

definition fuzzy_map :: "(string \<times> string) list" where
  "fuzzy_map = [(''morning'', ''10:00 AM''), (''afternoon'', ''02:00 PM''),
     (''evening'', ''06:00 PM''), (''night'', ''08:00 PM''), (''noon'', ''12:00 PM''),
     (''after lunch'', ''02:00 PM''), (''before lunch'', ''11:30 AM'')]"

text \<open>\<open>LOCATION_IN\<close> is \<^verbatim>\<open>in\s+([a-zA-Z ]{3,30})\<close>.\<close>

definition LOCATION_IN :: rx where
  "LOCATION_IN = seqs [lit ''in'', Rep whitespace 1 None,
                       Grp 1 (Rep (ascii_lowercase @ ascii_uppercase @ '' '') 3 (Some 30))]"

definition any_in :: "string list \<Rightarrow> string \<Rightarrow> bool" where
  "any_in words text = list_ex (\<lambda>w. contains w text) words"

definition initial_vars :: loop_vars where
  "initial_vars =
     \<lparr>service = None, date = None, time = None, location = None, intent = ''book'',
      delegated = False, location_auto_selected = False, service_auto_selected = False,
      confidences = [(''service'', 0), (''date'', 0), (''time'', 0), (''location'', 0)],
      ambiguities = [], explanation = [],
      explanations = [], explicit_location = None\<rparr>"

text \<open>
  The steps of one turn, in the order of the source, each on the lower-cased text of the
  turn. The date and the time step call the parsers, whose exception ends the extraction.
\<close>

definition location_pattern :: "string \<Rightarrow> loop_vars \<Rightarrow> loop_vars" where
  "location_pattern text v =
     (case re_search LOCATION_IN text of
        None \<Rightarrow> v
      | Some m_loc \<Rightarrow>
          (let candidate = lower (strip (the_group m_loc 1)) in
           if candidate \<in> set CITIES then
             (if \<not> truthy (location v)
              then v\<lparr>location := Some candidate,
                     confidences := AList.update ''location'' (9 / 10) (confidences v),
                     explanations := explanations v @ [''Location matched via pattern: '' @ candidate]\<rparr>
              else v)
           else v\<lparr>explicit_location := Some candidate,
                  explanations := explanations v @ [''Explicit location mentioned: '' @ candidate]\<rparr>))"

definition delegation :: "string \<Rightarrow> loop_vars \<Rightarrow> loop_vars" where
  "delegation text v =
     (if any_in delegation_phrases text
      then v\<lparr>delegated := True,
             explanations := explanations v @ [''User delegated decision-making to assistant'']\<rparr>
      else v)"

definition intent_detection :: "string \<Rightarrow> loop_vars \<Rightarrow> loop_vars" where
  "intent_detection text v =
     (if any_in [''cancel'', ''cancelled'', ''delete''] text then v\<lparr>intent := ''cancel''\<rparr>
      else if any_in [''change'', ''modify'', ''reschedule''] text then v\<lparr>intent := ''modify''\<rparr>
      else v)"

fun service_detection :: "string list \<Rightarrow> string \<Rightarrow> loop_vars \<Rightarrow> loop_vars" where
  "service_detection [] text v = v"
| "service_detection (s # rest) text v =
     service_detection rest text
       (if contains s text \<and> \<not> truthy (service v)
        then v\<lparr>service := Some s,
               confidences := AList.update ''service'' (95 / 100) (confidences v),
               explanations := explanations v @ [''Service matched by keyword '' @ [CHR 0x27] @ s @ [CHR 0x27]]\<rparr>
        else v)"

definition service_refinement :: "string \<Rightarrow> loop_vars \<Rightarrow> loop_vars" where
  "service_refinement text v =
     (if service v = Some ''appointment'' then
        (if any_in [''facial'', ''face'', ''skincare'', ''cleaning'', ''derma''] text
         then v\<lparr>service := Some ''facial'',
                confidences := AList.update ''service'' (9 / 10) (confidences v),
                explanations := explanations v @
                  [''Mapped generic 'appointment' to specific 'facial' based on user text'']\<rparr>
         else if any_in [''dental'', ''dentist''] text
         then v\<lparr>service := Some ''dental'',
                confidences := AList.update ''service'' (9 / 10) (confidences v),
                explanations := explanations v @
                  [''Mapped generic 'appointment' to specific 'dental' based on user text'']\<rparr>
         else v)
      else v)"

definition date_detection :: "pydate \<Rightarrow> string \<Rightarrow> loop_vars \<Rightarrow> error + loop_vars" where
  "date_detection today text v =
     (if \<not> truthy (date v) then
        (case parse_date today text of
           Inl e \<Rightarrow> Inl e
         | Inr parsed \<Rightarrow>
             if truthy parsed
             then Inr (v\<lparr>date := parsed,
                         confidences := AList.update ''date'' (9 / 10) (confidences v),
                         explanations := explanations v @
                           [''Date parsed as '' @ (case parsed of Some p \<Rightarrow> p | None \<Rightarrow> [])]\<rparr>)
             else Inr v)
      else Inr v)"

fun fuzzy_lookup :: "(string \<times> string) list \<Rightarrow> string \<Rightarrow> (string \<times> string) option" where
  "fuzzy_lookup [] text = None"
| "fuzzy_lookup ((w, resolved) # rest) text =
     (if contains w text then Some (w, resolved) else fuzzy_lookup rest text)"

definition time_detection :: "string \<Rightarrow> loop_vars \<Rightarrow> error + loop_vars" where
  "time_detection text v =
     (if \<not> truthy (time v) then
        (case normalize_time text of
           Inl e \<Rightarrow> Inl e
         | Inr time_value \<Rightarrow>
             if truthy time_value
             then Inr (v\<lparr>time := time_value,
                         confidences := AList.update ''time'' (95 / 100) (confidences v),
                         explanations := explanations v @
                           [''Time normalized to '' @ (case time_value of Some t \<Rightarrow> t | None \<Rightarrow> [])]\<rparr>)
             else
               (case fuzzy_lookup fuzzy_map text of
                  Some (w, resolved) \<Rightarrow>
                    Inr (v\<lparr>time := Some resolved,
                           confidences := AList.update ''time'' (7 / 10) (confidences v),
                           explanations := explanations v @
                             [''Fuzzy time '' @ [CHR 0x27] @ w @ [CHR 0x27] @ '' resolved to '' @ resolved]\<rparr>)
                | None \<Rightarrow> Inr v))
      else Inr v)"

fun city_detection :: "string list \<Rightarrow> string \<Rightarrow> loop_vars \<Rightarrow> loop_vars" where
  "city_detection [] text v = v"
| "city_detection (city # rest) text v =
     city_detection rest text
       (if contains city text \<and> \<not> truthy (location v)
        then v\<lparr>location := Some city,
               confidences := AList.update ''location'' (9 / 10) (confidences v),
               explanations := explanations v @ [''Location matched: '' @ city]\<rparr>
        else v)"

definition process_message :: "pydate \<Rightarrow> message \<Rightarrow> loop_vars \<Rightarrow> error + loop_vars" where
  "process_message today msg v =
     (let text = lower (case content msg of None \<Rightarrow> [] | Some c \<Rightarrow> c);
          v1 = location_pattern text v;
          v2 = delegation text v1;
          v3 = intent_detection text v2;
          v4 = service_detection SERVICES text v3;
          v5 = service_refinement text v4
      in case date_detection today text v5 of
           Inl e \<Rightarrow> Inl e
         | Inr v6 \<Rightarrow>
             (case time_detection text v6 of
                Inl e \<Rightarrow> Inl e
              | Inr v7 \<Rightarrow> Inr (city_detection CITIES text v7)))"

fun process_messages :: "pydate \<Rightarrow> message list \<Rightarrow> loop_vars \<Rightarrow> error + loop_vars" where
  "process_messages today [] v = Inr v"
| "process_messages today (msg # msgs) v =
     (case process_message today msg v of
        Inl e \<Rightarrow> Inl e
      | Inr v' \<Rightarrow> process_messages today msgs v')"

text \<open>
  The defaults after the loop, run when the user has delegated. The clock's date is the
  argument \<open>today\<close>; the store read by \<open>find_next_available\<close> is the argument \<open>db\<close>.
\<close>

definition default_service :: "loop_vars \<Rightarrow> loop_vars" where
  "default_service v =
     (if \<not> truthy (service v)
      then v\<lparr>service := Some ''facial'', service_auto_selected := True,
             confidences := AList.update ''service'' (6 / 10) (confidences v),
             explanations := explanations v @ [''Defaulted service to 'facial' due to delegation'']\<rparr>
      else v)"

definition default_date :: "string \<Rightarrow> loop_vars \<Rightarrow> loop_vars" where
  "default_date today_iso v =
     (if \<not> truthy (date v)
      then v\<lparr>date := Some today_iso,
             confidences := AList.update ''date'' (6 / 10) (confidences v),
             explanations := explanations v @
               [''Defaulted date to '' @ today_iso @ '' due to delegation'']\<rparr>
      else v)"

definition static_time :: "string \<Rightarrow> loop_vars \<Rightarrow> loop_vars" where
  "static_time why v =
     v\<lparr>time := Some ''10:00 AM'',
       confidences := AList.update ''time'' (6 / 10) (confidences v),
       explanations := explanations v @ [''Defaulted time to 10:00 AM due to delegation'' @ why]\<rparr>"

definition default_time :: "error + store \<Rightarrow> loop_vars \<Rightarrow> loop_vars" where
  "default_time db v =
     (if \<not> truthy (time v) then
        (if truthy (service v) then
           (case find_next_available db (case service v of Some s \<Rightarrow> s | None \<Rightarrow> []) (date v) None of
              Inl e \<Rightarrow> static_time '' (slot lookup failed)'' v
            | Inr None \<Rightarrow> static_time '' (no available slots found)'' v
            | Inr (Some nxt) \<Rightarrow>
                (let chosen_time = fst nxt in
                 v\<lparr>time := Some chosen_time,
                   confidences := AList.update ''time'' (75 / 100) (confidences v),
                   explanations := explanations v @
                     [''Auto-selected next available slot '' @ chosen_time @ '' for service ''
                      @ (case service v of Some s \<Rightarrow> s | None \<Rightarrow> ''None'')]\<rparr>))
         else static_time [] v)
      else v)"


definition default_location :: "loop_vars \<Rightarrow> loop_vars" where
  "default_location v =
     (if \<not> truthy (location v) then
        (if truthy (explicit_location v)
         then v\<lparr>location := explicit_location v,
                confidences := AList.update ''location'' (8 / 10) (confidences v),
                explanations := explanations v @
                  [''Used earlier mentioned location '' @ [CHR 0x27]
                   @ (case explicit_location v of Some l \<Rightarrow> l | None \<Rightarrow> [])
                   @ [CHR 0x27] @ '' due to delegation'']\<rparr>
         else v\<lparr>location := Some (hd CITIES), location_auto_selected := True,
                confidences := AList.update ''location'' (5 / 10) (confidences v),
                explanations := explanations v @
                  [''Auto-selected location '' @ hd CITIES @ '' due to delegation (assistant-chosen)'']\<rparr>)
      else v)"

definition delegation_defaults :: "pydate \<Rightarrow> error + store \<Rightarrow> loop_vars \<Rightarrow> loop_vars" where
  "delegation_defaults today db v =
     (if delegated v
      then default_location (default_time db (default_date (isoformat today) (default_service v)))
      else v)"

text \<open>\<^verbatim>\<open>"; ".join(explanations)\<close>, and the dictionary returned.\<close>

fun join :: "string \<Rightarrow> string list \<Rightarrow> string" where
  "join sep [] = []"
| "join sep [x] = x"
| "join sep (x # y # xs) = x @ sep @ join sep (y # xs)"

definition finish :: "loop_vars \<Rightarrow> booking_state" where
  "finish v = booking_state.truncate (v\<lparr>explanation := join ''; '' (explanations v)\<rparr>)"

definition extract_booking_state ::
  "pydate \<Rightarrow> error + store \<Rightarrow> message list \<Rightarrow> error + booking_state" where
  "extract_booking_state today db messages =
     (case process_messages today messages initial_vars of
        Inl e \<Rightarrow> Inl e
      | Inr v \<Rightarrow> Inr (finish (delegation_defaults today db v)))"

section \<open>explainability.py\<close>

record breakdown =
  avg_confidence :: rat
  ambiguity_count :: nat
  ambiguity_penalty_pct :: rat
  missing_count :: nat
  missing_penalty_pct :: rat
  score :: rat

text \<open>The keys of the state among the four fields whose value is falsy, in the state's order.\<close>

definition missing_fields :: "booking_state \<Rightarrow> string list" where
  "missing_fields state =
     map fst (filter (\<lambda>kv. \<not> truthy (snd kv))
       [(''service'', service state), (''date'', date state), (''time'', time state),
        (''location'', location state)])"

text \<open>
  \<open>confidences.values()\<close>: a confidence of the state is the decimal of its literal and
  is read as the double nearest to it.
\<close>

fun conf_values :: "(string \<times> rat) list \<Rightarrow> rat list" where
  "conf_values [] = []"
| "conf_values (kv # rest) = fl (snd kv) # conf_values rest"

text \<open>
  \<open>compute_explainability_score\<close>, with \<open>sum\<close> as the argument \<open>fsum\<close>. A count becomes a
  double before it is multiplied or divided by.
\<close>

definition compute_explainability_score :: "(rat list \<Rightarrow> rat) \<Rightarrow> booking_state \<Rightarrow> breakdown" where
  "compute_explainability_score fsum state =
     (let vals = conf_values (confidences state);
          avg_conf = (if vals \<noteq> [] then fdiv (fsum vals) (fl (of_nat (length vals))) else 0);
          ambiguity_penalty =
            min (fmul (fl (of_nat (length (ambiguities state)))) (fl (15 / 100))) (fl (45 / 100));
          missing = missing_fields state;
          missing_penalty = min (fmul (fl (of_nat (length missing))) (fl (1 / 10))) (fl (3 / 10));
          raw = fmul avg_conf (fsub (fsub 1 ambiguity_penalty) missing_penalty);
          score_v = fmul (max 0 (min 1 raw)) 100
      in \<lparr>avg_confidence = py_round (fmul avg_conf 100) 2,
          ambiguity_count = length (ambiguities state),
          ambiguity_penalty_pct = py_round (fmul ambiguity_penalty 100) 2,
          missing_count = length missing,
          missing_penalty_pct = py_round (fmul missing_penalty 100) 2,
          score = py_round score_v 2\<rparr>)"

text \<open>The score of the explainability claim, in the claim's words, on doubles.\<close>

definition avgConf :: "(rat list \<Rightarrow> rat) \<Rightarrow> booking_state \<Rightarrow> rat" where
  "avgConf fsum state =
     (if confidences state = [] then 0
      else fdiv (fsum (conf_values (confidences state)))
             (fl (of_nat (length (confidences state)))))"

definition missingFieldCount :: "booking_state \<Rightarrow> nat" where
  "missingFieldCount state =
     (if truthy (service state) then 0 else 1) + (if truthy (date state) then 0 else 1)
     + (if truthy (time state) then 0 else 1) + (if truthy (location state) then 0 else 1)"

definition ambiguityPenalty :: "booking_state \<Rightarrow> rat" where
  "ambiguityPenalty state =
     min (fmul (fl (15 / 100)) (fl (of_nat (length (ambiguities state))))) (fl (45 / 100))"

definition missingPenalty :: "booking_state \<Rightarrow> rat" where
  "missingPenalty state =
     min (fmul (fl (10 / 100)) (fl (of_nat (missingFieldCount state)))) (fl (30 / 100))"

definition claimed_score :: "(rat list \<Rightarrow> rat) \<Rightarrow> booking_state \<Rightarrow> rat" where
  "claimed_score fsum state =
     fmul (max 0 (min 1 (fmul (avgConf fsum state)
                               (fsub (fsub 1 (ambiguityPenalty state)) (missingPenalty state)))))
          100"

text \<open>
  The state the fuzzy-time scenario asks for, with a known city added: every field set,
  one ambiguity token.
\<close>

definition demo_state :: booking_state where
  "demo_state =
     \<lparr>service = Some ''salon'', date = Some ''2026-11-04'', time = Some ''6:00 PM'',
      location = Some ''delhi'', intent = ''book'', delegated = False,
      location_auto_selected = False, service_auto_selected = False,
      confidences = [(''service'', 95 / 100), (''date'', 9 / 10), (''time'', 7 / 10),
                     (''location'', 9 / 10)],
      ambiguities = [''evening''], explanation = []\<rparr>"

text \<open>A date of the clock and a user turn, for the scenarios.\<close>

definition today0 :: pydate where
  "today0 = \<lparr>year = 2026, month = 11, day = 3\<rparr>"

definition user_says :: "string \<Rightarrow> message" where
  "user_says text = \<lparr>role = ''user'', content = Some text\<rparr>"

text \<open>
  A conversation whose first turn names a place that is no known city, and whose second
  turn delegates after an \<open>in\<close> followed by blanks only.
\<close>

definition goa_conversation :: "message list" where
  "goa_conversation =
     [user_says ''book a spa in goa'', user_says ''tomorrow at 9am in    , you decide'']"

section \<open>Predicates used in the statements about the extraction\<close>

text \<open>
  The confidence recorded for a field.
\<close>

definition conf_of :: "'a booking_state_scheme \<Rightarrow> string \<Rightarrow> rat option" where
  "conf_of v k = map_of (confidences v) k"

text \<open>
  A field that is set keeps its value and its confidence.
\<close>

definition field_kept :: "string option \<Rightarrow> rat option \<Rightarrow> string option \<Rightarrow> rat option \<Rightarrow> bool" where
  "field_kept x cx y cy = (if truthy x then y = x \<and> cy = cx else True)"

text \<open>
  The service, once set, keeps its value and its confidence, but for the generic
  \<open>appointment\<close>, which may also become \<open>facial\<close> or \<open>dental\<close> at confidence 0.9.
\<close>

definition service_kept :: "string option \<Rightarrow> rat option \<Rightarrow> string option \<Rightarrow> rat option \<Rightarrow> bool" where
  "service_kept x cx y cy =
     (if truthy x
      then (if x = Some ''appointment''
            then (y = x \<and> cy = cx)
                 \<or> ((y = Some ''facial'' \<or> y = Some ''dental'') \<and> cy = Some (9 / 10))
            else y = x \<and> cy = cx)
      else True)"

text \<open>
  The state \<open>w\<close> keeps what the state \<open>v\<close> has set.
\<close>

definition keeps_fields :: "'a booking_state_scheme \<Rightarrow> 'b booking_state_scheme \<Rightarrow> bool" where
  "keeps_fields v w =
     (service_kept (service v) (conf_of v ''service'') (service w) (conf_of w ''service'')
      \<and> field_kept (date v) (conf_of v ''date'') (date w) (conf_of w ''date'')
      \<and> field_kept (time v) (conf_of v ''time'') (time w) (conf_of w ''time'')
      \<and> field_kept (location v) (conf_of v ''location'') (location w) (conf_of w ''location''))"

text \<open>
  A conversation in two parts, for the statement about accumulation.
\<close>

definition kept_conversation :: "message list" where
  "kept_conversation = [user_says ''I need an appointment tomorrow'']"

definition later_conversation :: "message list" where
  "later_conversation = [user_says ''a dental one at 9am in Delhi, you decide'']"

text \<open>
  The time chosen under delegation and its confidence: the slot found by
  \<open>find_next_available\<close>, else the static default, also when the lookup raises.
\<close>

definition delegated_time :: "error + store \<Rightarrow> string option \<Rightarrow> string option \<Rightarrow> string \<times> rat" where
  "delegated_time db svc dat =
     (case find_next_available db (case svc of Some s \<Rightarrow> s | None \<Rightarrow> []) dat None of
        Inr (Some nxt) \<Rightarrow> (fst nxt, 75 / 100)
      | Inr None \<Rightarrow> (''10:00 AM'', 6 / 10)
      | Inl e \<Rightarrow> (''10:00 AM'', 6 / 10))"

text \<open>
  Neither auto-selection flag is set.
\<close>

definition flags_clear :: "'a booking_state_scheme \<Rightarrow> bool" where
  "flags_clear v = (\<not> service_auto_selected v \<and> \<not> location_auto_selected v)"

section \<open>Properties of the slot engine\<close>

lemma truthy_Some [simp]: "truthy (Some s) = (s \<noteq> [])"
  by (simp add: truthy_def)

lemma truthy_None [simp]: "truthy None = False"
  by (simp add: truthy_def)

lemma find_bookings_nonempty:
  "truthy tim \<Longrightarrow> svc \<noteq> [] \<Longrightarrow>
   (find_bookings st (Some svc) dat tim \<noteq> []) = list_ex (\<lambda>b. slot_taken b svc dat tim) st"
  by (induction st) (auto simp: find_bookings_def slot_taken_def)

lemma catalog_services_nonempty: "map_of AVAILABLE_SLOTS svc = Some slots \<Longrightarrow> svc \<noteq> []"
  by (auto simp: AVAILABLE_SLOTS_def split: if_splits)

text \<open>
  Claim C4, as amended. A service with no catalog is available with the one entry
  \<open>Anytime\<close>; a svc whose catalog holds \<open>Anytime\<close> is available with its catalog;
  with no tim requested the answer is available with the full catalog; otherwise the
  answer is available with the full catalog if and only if no stored booking is for this
  svc and tim and, when a dat is given, for this dat, and when there is such a
  booking the answer is unavailable with the catalog entries other than the requested
  tim, in catalog order.
\<close>

theorem check_availability_contract:
  "(map_of AVAILABLE_SLOTS svc = None \<longrightarrow>
      check_availability st svc dat tim = (True, [''Anytime'']))
   \<and> (\<forall>slots. map_of AVAILABLE_SLOTS svc = Some slots \<longrightarrow>
        (''Anytime'' \<in> set slots \<longrightarrow> check_availability st svc dat tim = (True, slots))
      \<and> (\<not> truthy tim \<longrightarrow> check_availability st svc dat tim = (True, slots))
      \<and> (''Anytime'' \<notin> set slots \<and> truthy tim \<longrightarrow>
           check_availability st svc dat tim =
             (if list_ex (\<lambda>b. slot_taken b svc dat tim) st
              then (False, filter (\<lambda>s. Some s \<noteq> tim) slots) else (True, slots))))"
proof -
  have "find_bookings st (Some svc) dat tim \<noteq> [] = list_ex (\<lambda>b. slot_taken b svc dat tim) st"
    if "map_of AVAILABLE_SLOTS svc = Some slots" "truthy tim" for slots
    using that find_bookings_nonempty catalog_services_nonempty by blast
  then show ?thesis
    by (auto simp: check_availability_def)
qed

text \<open>
  Claim C4 as stated fails when no date is given: the only stored booking is for another
  date than the one asked (none), so no booking matches (service, date, time) exactly, and
  the slot is reported unavailable all the same.
\<close>

theorem check_availability_exact_match_counterexample:
  "fst (check_availability [demo_booking] ''spa'' None (Some ''9:00 AM'')) = False
   \<and> \<not> exact_match demo_booking ''spa'' None (Some ''9:00 AM'')"
  by (simp add: check_availability_def AVAILABLE_SLOTS_def find_bookings_def demo_booking_def exact_match_def)

theorem check_availability_contract_witness:
  "check_availability [] ''flight'' None None = (True, [''Anytime''])
   \<and> check_availability [demo_booking] ''hotel'' None (Some ''Anytime'') = (True, [''Anytime''])
   \<and> check_availability [demo_booking] ''spa'' (Some ''2099-01-01'') None = (True, [''9:00 AM'', ''10:00 AM'', ''11:00 AM'', ''4:00 PM''])
   \<and> check_availability [demo_booking] ''spa'' (Some ''2099-01-01'') (Some ''9:00 AM'') = (False, [''10:00 AM'', ''11:00 AM'', ''4:00 PM''])"
  using check_availability_contract [of "''flight''" "[]" None None]
    check_availability_contract [of "''hotel''" "[demo_booking]" None "Some ''Anytime''"]
    check_availability_contract [of "''spa''" "[demo_booking]" "Some ''2099-01-01''" None]
    check_availability_contract [of "''spa''" "[demo_booking]" "Some ''2099-01-01''" "Some ''9:00 AM''"]
  by (simp add: AVAILABLE_SLOTS_def slot_taken_def demo_booking_def)


lemma add_booking_fresh:
  "booking_id \<notin> set (map b_id st) \<Longrightarrow>
   add_booking st booking_id created_at svc dat tim loc meta_v =
     (Inr \<lparr>b_id = booking_id, b_service = svc, b_date = dat, b_time = tim,
            b_location = loc, b_created_at = created_at, b_meta = meta_v\<rparr>,
      st @ [\<lparr>b_id = booking_id, b_service = svc, b_date = dat, b_time = tim,
            b_location = loc, b_created_at = created_at, b_meta = meta_v\<rparr>])"
  by (simp add: add_booking_def Let_def)

lemma add_booking_cases:
  "add_booking st booking_id created_at svc dat tim loc meta_v = (r, st') \<Longrightarrow>
   (r = Inl IntegrityError \<and> st' = st \<and> booking_id \<in> set (map b_id st))
   \<or> (\<exists>b. r = Inr b \<and> st' = st @ [b] \<and> b_id b = booking_id \<and> b_service b = svc
          \<and> b_date b = dat \<and> b_time b = tim \<and> b_location b = loc
          \<and> booking_id \<notin> set (map b_id st))"
  by (auto simp: add_booking_def Let_def split: if_splits)

lemma book_slot_unavailable:
  "\<not> fst (check_availability st svc (Some dat) (Some tim)) \<Longrightarrow>
   book_slot st booking_id created_at svc dat tim loc meta_v = (Inl slot_conflict, st)"
  by (cases "check_availability st svc (Some dat) (Some tim)") (simp add: book_slot_def)

lemma book_slot_available:
  "fst (check_availability st svc (Some dat) (Some tim)) \<Longrightarrow>
   book_slot st booking_id created_at svc dat tim loc meta_v =
     add_booking st booking_id created_at (Some svc) (Some dat) (Some tim) loc
       (case meta_v of None \<Rightarrow> [] | Some m \<Rightarrow> m)"
  by (cases "check_availability st svc (Some dat) (Some tim)") (simp add: book_slot_def)

text \<open>
  Claim C5. \<open>book_slot\<close> raises the conflict error if and only if
  \<open>check_availability\<close> reports the slot unavailable on the store of the call; the
  error leaves the store as it was; a success appends exactly one record, the one
  returned, with the given svc, dat, tim and loc; and an available slot
  under a fresh identifier does succeed.
\<close>

theorem book_slot_conflict_iff_unavailable:
  "(fst (book_slot st booking_id created_at svc dat tim loc meta_v) = Inl slot_conflict
      \<longleftrightarrow> \<not> fst (check_availability st svc (Some dat) (Some tim)))
   \<and> (fst (book_slot st booking_id created_at svc dat tim loc meta_v) = Inl slot_conflict
        \<longrightarrow> snd (book_slot st booking_id created_at svc dat tim loc meta_v) = st)
   \<and> (\<forall>b. fst (book_slot st booking_id created_at svc dat tim loc meta_v) = Inr b
        \<longrightarrow> snd (book_slot st booking_id created_at svc dat tim loc meta_v) = st @ [b]
            \<and> b_id b \<notin> set (map b_id st)
            \<and> b_service b = Some svc \<and> b_date b = Some dat \<and> b_time b = Some tim
            \<and> b_location b = loc)
   \<and> (fst (check_availability st svc (Some dat) (Some tim))
        \<and> booking_id \<notin> set (map b_id st)
        \<longrightarrow> (\<exists>b. fst (book_slot st booking_id created_at svc dat tim loc meta_v) = Inr b))"
proof (cases "fst (check_availability st svc (Some dat) (Some tim))")
  case False
  then show ?thesis
    by (simp add: book_slot_unavailable)
next
  case True
  obtain r st' where a: "add_booking st booking_id created_at (Some svc) (Some dat) (Some tim) loc
       (case meta_v of None \<Rightarrow> [] | Some m \<Rightarrow> m) = (r, st')"
    by (cases "add_booking st booking_id created_at (Some svc) (Some dat) (Some tim) loc
       (case meta_v of None \<Rightarrow> [] | Some m \<Rightarrow> m)") auto
  from add_booking_cases [OF a] True a show ?thesis
    by (auto simp: book_slot_available slot_conflict_def)
qed

theorem book_slot_conflict_iff_unavailable_witness:
  "fst (book_slot [demo_booking] ''bkg_2'' ''now'' ''spa'' ''2099-01-01'' ''9:00 AM'' None None) = Inl slot_conflict
   \<and> snd (book_slot [demo_booking] ''bkg_2'' ''now'' ''spa'' ''2099-01-01'' ''9:00 AM'' None None) = [demo_booking]
   \<and> fst (book_slot [] ''bkg_1'' ''2026-11-03T00:00:00Z'' ''spa'' ''2099-01-01'' ''9:00 AM'' (Some ''bangalore'') None) = Inr demo_booking
   \<and> snd (book_slot [] ''bkg_1'' ''2026-11-03T00:00:00Z'' ''spa'' ''2099-01-01'' ''9:00 AM'' (Some ''bangalore'') None) = [] @ [demo_booking]"
proof -
  have u: "\<not> fst (check_availability [demo_booking] ''spa'' (Some ''2099-01-01'') (Some ''9:00 AM''))"
    by (simp add: check_availability_def AVAILABLE_SLOTS_def find_bookings_def demo_booking_def)
  have r: "fst (book_slot [] ''bkg_1'' ''2026-11-03T00:00:00Z'' ''spa'' ''2099-01-01'' ''9:00 AM'' (Some ''bangalore'') None) = Inr demo_booking"
    by (simp add: book_slot_def check_availability_def AVAILABLE_SLOTS_def find_bookings_def
        add_booking_def demo_booking_def Let_def)
  from u r
    book_slot_conflict_iff_unavailable [of "[demo_booking]" "''bkg_2''" "''now''" "''spa''" "''2099-01-01''" "''9:00 AM''" None None]
    book_slot_conflict_iff_unavailable [of "[]" "''bkg_1''" "''2026-11-03T00:00:00Z''" "''spa''" "''2099-01-01''" "''9:00 AM''" "Some ''bangalore''" None]
  show ?thesis by blast
qed

lemma cancel_booking_store:
  "snd (cancel_booking st booking_id) = filter (\<lambda>b. b_id b \<noteq> booking_id) st"
  by (simp add: cancel_booking_def remove_booking_def Let_def)

lemma find_bookings_filter_empty:
  "find_bookings st svc dat tim = [] \<Longrightarrow> find_bookings (filter P st) svc dat tim = []"
  by (auto simp: find_bookings_def filter_empty_conv)

lemma find_bookings_append:
  "find_bookings (st @ st') svc dat tim =
     find_bookings st svc dat tim @ find_bookings st' svc dat tim"
  by (simp add: find_bookings_def)

lemma check_availability_filter:
  "fst (check_availability st svc dat tim) \<Longrightarrow>
   fst (check_availability (filter P st) svc dat tim)"
  by (auto simp: check_availability_def find_bookings_filter_empty split: option.splits if_splits)

text \<open>
  Claim C6, as amended. For a service with a catalog that does not hold \<open>Anytime\<close>
  and a non-empty tim: when the slot is reported free and \<open>book_slot\<close> succeeds, the
  same slot is reported unavailable on the new store, and available again once the
  returned booking is cancelled.
\<close>

theorem availability_round_trip:
  assumes catalog: "map_of AVAILABLE_SLOTS svc = Some slots"
    and no_anytime: "''Anytime'' \<notin> set slots"
    and time_given: "tim \<noteq> []"
    and free: "fst (check_availability st svc (Some dat) (Some tim))"
    and booked: "book_slot st booking_id created_at svc dat tim loc meta_v = (Inr b, st')"
  shows "\<not> fst (check_availability st' svc (Some dat) (Some tim))
         \<and> fst (check_availability (snd (cancel_booking st' (b_id b))) svc (Some dat) (Some tim))"
proof -
  from booked free
  have a: "add_booking st booking_id created_at (Some svc) (Some dat) (Some tim) loc
       (case meta_v of None \<Rightarrow> [] | Some m \<Rightarrow> m) = (Inr b, st')"
    by (simp add: book_slot_available)
  from add_booking_cases [OF a]
  have st': "st' = st @ [b]" and b: "b_service b = Some svc" "b_date b = Some dat" "b_time b = Some tim"
    by auto
  have "find_bookings [b] (Some svc) (Some dat) (Some tim) = [b]"
    using b by (simp add: find_bookings_def)
  then have "find_bookings st' (Some svc) (Some dat) (Some tim) \<noteq> []"
    by (simp add: st' find_bookings_append)
  then have unavailable: "\<not> fst (check_availability st' svc (Some dat) (Some tim))"
    using catalog no_anytime time_given by (simp add: check_availability_def)
  have "filter (\<lambda>x. b_id x \<noteq> b_id b) st' = filter (\<lambda>x. b_id x \<noteq> b_id b) st"
    by (simp add: st')
  then have "fst (check_availability (snd (cancel_booking st' (b_id b))) svc (Some dat) (Some tim))"
    using check_availability_filter [OF free] by (simp add: cancel_booking_store)
  with unavailable show ?thesis by simp
qed

text \<open>
  Claim C6 as stated fails for \<open>hotel\<close>: the slot is free, the booking succeeds, and the
  slot is still reported available.
\<close>

theorem availability_round_trip_counterexample:
  "fst (check_availability [] ''hotel'' (Some ''2099-01-01'') (Some ''9:00 AM''))
   \<and> book_slot [] ''bkg_1'' ''now'' ''hotel'' ''2099-01-01'' ''9:00 AM'' None None
       = (Inr \<lparr>b_id = ''bkg_1'', b_service = Some ''hotel'', b_date = Some ''2099-01-01'',
                b_time = Some ''9:00 AM'', b_location = None, b_created_at = ''now'', b_meta = []\<rparr>,
          [\<lparr>b_id = ''bkg_1'', b_service = Some ''hotel'', b_date = Some ''2099-01-01'',
                b_time = Some ''9:00 AM'', b_location = None, b_created_at = ''now'', b_meta = []\<rparr>])
   \<and> fst (check_availability [\<lparr>b_id = ''bkg_1'', b_service = Some ''hotel'', b_date = Some ''2099-01-01'',
                b_time = Some ''9:00 AM'', b_location = None, b_created_at = ''now'', b_meta = []\<rparr>]
             ''hotel'' (Some ''2099-01-01'') (Some ''9:00 AM''))"
  by (simp add: book_slot_def check_availability_def AVAILABLE_SLOTS_def add_booking_def Let_def)

theorem availability_round_trip_witness:
  "\<not> fst (check_availability [demo_booking] ''spa'' (Some ''2099-01-01'') (Some ''9:00 AM''))
   \<and> fst (check_availability (snd (cancel_booking [demo_booking] (b_id demo_booking))) ''spa''
        (Some ''2099-01-01'') (Some ''9:00 AM''))"
proof -
  have c: "map_of AVAILABLE_SLOTS ''spa'' = Some [''9:00 AM'', ''10:00 AM'', ''11:00 AM'', ''4:00 PM'']"
    by (simp add: AVAILABLE_SLOTS_def)
  have f: "fst (check_availability [] ''spa'' (Some ''2099-01-01'') (Some ''9:00 AM''))"
    by (simp add: check_availability_def AVAILABLE_SLOTS_def find_bookings_def)
  have k: "book_slot [] ''bkg_1'' ''2026-11-03T00:00:00Z'' ''spa'' ''2099-01-01'' ''9:00 AM'' (Some ''bangalore'') None
             = (Inr demo_booking, [demo_booking])"
    by (simp add: book_slot_def check_availability_def AVAILABLE_SLOTS_def find_bookings_def
        add_booking_def demo_booking_def Let_def)
  show ?thesis
    using availability_round_trip [OF c _ _ f k] by simp
qed


text \<open>
  Claim C10. For a service with no catalog, or whose catalog holds \<open>Anytime\<close>,
  \<open>check_availability\<close> reports available on every store, \<open>book_slot\<close> never raises
  the conflict error, and two calls with the same svc, dat and tim (under two
  fresh identifiers) persist two distinct records for that slot, the slot being still
  reported available in between.
\<close>

theorem unlimited_service_double_booking:
  assumes unlimited: "always_available svc"
    and fresh1: "id1 \<notin> set (map b_id st)"
    and fresh2: "id2 \<notin> set (map b_id st)"
    and distinct_ids: "id1 \<noteq> id2"
  shows "fst (check_availability st svc date_opt time_opt)
         \<and> fst (book_slot st id1 at1 svc dat tim loc meta_v) \<noteq> Inl slot_conflict
         \<and> (\<exists>b1 b2. book_slot st id1 at1 svc dat tim loc meta_v = (Inr b1, st @ [b1])
               \<and> book_slot (st @ [b1]) id2 at2 svc dat tim loc meta_v = (Inr b2, st @ [b1, b2])
               \<and> b1 \<noteq> b2
               \<and> b_service b1 = Some svc \<and> b_date b1 = Some dat \<and> b_time b1 = Some tim
               \<and> b_service b2 = Some svc \<and> b_date b2 = Some dat \<and> b_time b2 = Some tim
               \<and> fst (check_availability (st @ [b1]) svc (Some dat) (Some tim)))"
proof -
  have avail: "fst (check_availability s svc d t)" for s d t
    using unlimited by (auto simp: always_available_def check_availability_def split: option.splits)
  show ?thesis
    using avail fresh1 fresh2 distinct_ids
    by (simp add: book_slot_available add_booking_def slot_conflict_def Let_def)
qed

theorem unlimited_service_double_booking_witness:
  "\<exists>b1 b2. book_slot [] ''bkg_1'' ''t1'' ''hotel'' ''2099-01-01'' ''9:00 AM'' None None = (Inr b1, [] @ [b1])
      \<and> book_slot ([] @ [b1]) ''bkg_2'' ''t2'' ''hotel'' ''2099-01-01'' ''9:00 AM'' None None = (Inr b2, [] @ [b1, b2])
      \<and> b1 \<noteq> b2"
proof -
  have u: "always_available ''hotel''"
    by (simp add: always_available_def AVAILABLE_SLOTS_def)
  have d: "''bkg_1'' \<noteq> ''bkg_2''" by simp
  from unlimited_service_double_booking [OF u _ _ d, of "[]" None None "''t1''" "''2099-01-01''" "''9:00 AM''" None None "''t2''"]
  show ?thesis by auto
qed


section \<open>Properties of the pricing and of the explainability score\<close>

lemma small_doubles:
  "fadd 0 5 = 5 \<and> fadd 5 5 = 10 \<and> fadd 10 5 = 15 \<and> fadd 15 5 = 20"
  by code_simp

lemma code_discount:
  "(if meta_get m ''loyalty_tier'' = Some ''gold''
    then fadd (if 90 \<le> c then 15 else if 75 \<le> c then 10 else if 50 \<le> c then 5 else 0) 5
    else (if 90 \<le> c then 15 else if 75 \<le> c then 10 else if 50 \<le> c then 5 else 0))
   = tier_discount c + loyalty_bonus m"
  using small_doubles by (simp add: tier_discount_def loyalty_bonus_def)

lemma discount_values:
  "tier_discount c + loyalty_bonus m \<in> set [0, 5, 10, 15, 20]"
  by (simp add: tier_discount_def loyalty_bonus_def)

lemma base_price_values:
  "base_price svc \<in> set [50, 40, 100, 60, 27, 80, 150, 200, 30]"
proof (cases "map_of BASE_PRICES svc")
  case None
  then show ?thesis by (simp add: base_price_def)
next
  case (Some p)
  then have "p \<in> snd ` set BASE_PRICES" by (metis map_of_SomeD image_eqI snd_conv)
  then have "p \<in> set [50, 40, 100, 60, 27, 80, 150, 200, 30]"
    by (auto simp: BASE_PRICES_def)
  with Some show ?thesis by (simp add: base_price_def)
qed

text \<open>
  For each base price and each discount, the float product, in hundredths, rounds to the
  exact discounted price in hundredths: the rounded product is the double nearest to the
  exact discounted price.
\<close>

lemma hundredths_50:
  "round_half_even (fmul 50 (fsub 1 (fdiv 0 100)) * 10 ^ 2) = 5000
   \<and> round_half_even (fmul 50 (fsub 1 (fdiv 5 100)) * 10 ^ 2) = 4750
   \<and> round_half_even (fmul 50 (fsub 1 (fdiv 10 100)) * 10 ^ 2) = 4500
   \<and> round_half_even (fmul 50 (fsub 1 (fdiv 15 100)) * 10 ^ 2) = 4250
   \<and> round_half_even (fmul 50 (fsub 1 (fdiv 20 100)) * 10 ^ 2) = 4000"
  by code_simp

lemma hundredths_40:
  "round_half_even (fmul 40 (fsub 1 (fdiv 0 100)) * 10 ^ 2) = 4000
   \<and> round_half_even (fmul 40 (fsub 1 (fdiv 5 100)) * 10 ^ 2) = 3800
   \<and> round_half_even (fmul 40 (fsub 1 (fdiv 10 100)) * 10 ^ 2) = 3600
   \<and> round_half_even (fmul 40 (fsub 1 (fdiv 15 100)) * 10 ^ 2) = 3400
   \<and> round_half_even (fmul 40 (fsub 1 (fdiv 20 100)) * 10 ^ 2) = 3200"
  by code_simp

lemma hundredths_100:
  "round_half_even (fmul 100 (fsub 1 (fdiv 0 100)) * 10 ^ 2) = 10000
   \<and> round_half_even (fmul 100 (fsub 1 (fdiv 5 100)) * 10 ^ 2) = 9500
   \<and> round_half_even (fmul 100 (fsub 1 (fdiv 10 100)) * 10 ^ 2) = 9000
   \<and> round_half_even (fmul 100 (fsub 1 (fdiv 15 100)) * 10 ^ 2) = 8500
   \<and> round_half_even (fmul 100 (fsub 1 (fdiv 20 100)) * 10 ^ 2) = 8000"
  by code_simp

lemma hundredths_60:
  "round_half_even (fmul 60 (fsub 1 (fdiv 0 100)) * 10 ^ 2) = 6000
   \<and> round_half_even (fmul 60 (fsub 1 (fdiv 5 100)) * 10 ^ 2) = 5700
   \<and> round_half_even (fmul 60 (fsub 1 (fdiv 10 100)) * 10 ^ 2) = 5400
   \<and> round_half_even (fmul 60 (fsub 1 (fdiv 15 100)) * 10 ^ 2) = 5100
   \<and> round_half_even (fmul 60 (fsub 1 (fdiv 20 100)) * 10 ^ 2) = 4800"
  by code_simp

lemma hundredths_27:
  "round_half_even (fmul 27 (fsub 1 (fdiv 0 100)) * 10 ^ 2) = 2700
   \<and> round_half_even (fmul 27 (fsub 1 (fdiv 5 100)) * 10 ^ 2) = 2565
   \<and> round_half_even (fmul 27 (fsub 1 (fdiv 10 100)) * 10 ^ 2) = 2430
   \<and> round_half_even (fmul 27 (fsub 1 (fdiv 15 100)) * 10 ^ 2) = 2295
   \<and> round_half_even (fmul 27 (fsub 1 (fdiv 20 100)) * 10 ^ 2) = 2160"
  by code_simp

lemma hundredths_80:
  "round_half_even (fmul 80 (fsub 1 (fdiv 0 100)) * 10 ^ 2) = 8000
   \<and> round_half_even (fmul 80 (fsub 1 (fdiv 5 100)) * 10 ^ 2) = 7600
   \<and> round_half_even (fmul 80 (fsub 1 (fdiv 10 100)) * 10 ^ 2) = 7200
   \<and> round_half_even (fmul 80 (fsub 1 (fdiv 15 100)) * 10 ^ 2) = 6800
   \<and> round_half_even (fmul 80 (fsub 1 (fdiv 20 100)) * 10 ^ 2) = 6400"
  by code_simp

lemma hundredths_150:
  "round_half_even (fmul 150 (fsub 1 (fdiv 0 100)) * 10 ^ 2) = 15000
   \<and> round_half_even (fmul 150 (fsub 1 (fdiv 5 100)) * 10 ^ 2) = 14250
   \<and> round_half_even (fmul 150 (fsub 1 (fdiv 10 100)) * 10 ^ 2) = 13500
   \<and> round_half_even (fmul 150 (fsub 1 (fdiv 15 100)) * 10 ^ 2) = 12750
   \<and> round_half_even (fmul 150 (fsub 1 (fdiv 20 100)) * 10 ^ 2) = 12000"
  by code_simp

lemma hundredths_200:
  "round_half_even (fmul 200 (fsub 1 (fdiv 0 100)) * 10 ^ 2) = 20000
   \<and> round_half_even (fmul 200 (fsub 1 (fdiv 5 100)) * 10 ^ 2) = 19000
   \<and> round_half_even (fmul 200 (fsub 1 (fdiv 10 100)) * 10 ^ 2) = 18000
   \<and> round_half_even (fmul 200 (fsub 1 (fdiv 15 100)) * 10 ^ 2) = 17000
   \<and> round_half_even (fmul 200 (fsub 1 (fdiv 20 100)) * 10 ^ 2) = 16000"
  by code_simp

lemma hundredths_30:
  "round_half_even (fmul 30 (fsub 1 (fdiv 0 100)) * 10 ^ 2) = 3000
   \<and> round_half_even (fmul 30 (fsub 1 (fdiv 5 100)) * 10 ^ 2) = 2850
   \<and> round_half_even (fmul 30 (fsub 1 (fdiv 10 100)) * 10 ^ 2) = 2700
   \<and> round_half_even (fmul 30 (fsub 1 (fdiv 15 100)) * 10 ^ 2) = 2550
   \<and> round_half_even (fmul 30 (fsub 1 (fdiv 20 100)) * 10 ^ 2) = 2400"
  by code_simp

lemmas hundredths = hundredths_50 hundredths_40 hundredths_100 hundredths_60 hundredths_27 hundredths_80 hundredths_150 hundredths_200 hundredths_30

lemma discounted_prices:
  assumes "b \<in> set [50, 40, 100, 60, 27, 80, 150, 200, 30]" and "d \<in> set [0, 5, 10, 15, 20]"
  shows "py_round (fmul b (fsub 1 (fdiv d 100))) 2 = fl (b * (1 - d / 100))"
proof -
  from assms(2) consider "d = 0" | "d = 5" | "d = 10" | "d = 15" | "d = 20" by auto
  then show ?thesis
  proof cases
    case 1 with assms(1) show ?thesis
      unfolding py_round_def using hundredths by auto
  next
    case 2 with assms(1) show ?thesis
      unfolding py_round_def using hundredths by auto
  next
    case 3 with assms(1) show ?thesis
      unfolding py_round_def using hundredths by auto
  next
    case 4 with assms(1) show ?thesis
      unfolding py_round_def using hundredths by auto
  next
    case 5 with assms(1) show ?thesis
      unfolding py_round_def using hundredths by auto
  qed
qed

lemma final_usd_nearest:
  "py_round (fmul (base_price svc) (fsub 1 (fdiv (tier_discount c + loyalty_bonus m) 100))) 2
   = discounted_usd svc (tier_discount c + loyalty_bonus m)"
  unfolding discounted_usd_def
  by (rule discounted_prices [OF base_price_values discount_values])

lemma chosen_currency_eq:
  "(if truthy (meta_get m ''currency'')
    then upper (case meta_get m ''currency'' of Some c \<Rightarrow> c | None \<Rightarrow> [])
    else if truthy loc \<and> lower (case loc of Some l \<Rightarrow> l | None \<Rightarrow> []) \<in> set INDIAN_CITIES
    then ''INR'' else ''USD'') = chosen_currency m loc"
proof -
  have "[] \<notin> set INDIAN_CITIES" by (simp add: INDIAN_CITIES_def)
  then show ?thesis
    by (auto simp: chosen_currency_def truthy_def lower_def split: option.splits)
qed

lemma get_rate_caches: "snd (get_rate env) = Some (fst (get_rate env))"
  by (simp add: get_rate_def split: option.splits)

text \<open>
  Claim C9, as amended. The discount is 15 from a confidence of 90, 10 from 75, 5 from 50,
  else 0, plus 5 when the meta record's loyalty tier is \<open>gold\<close>. The currency is the
  meta record's currency in upper case when one is given; else \<open>INR\<close> when the location
  in lower case is in the list of Indian cities; else \<open>USD\<close>. The price in dollars is the
  double nearest to the base price less the discount. The amount in \<open>INR\<close> is the float
  product of that price and the cached exchange rate, rounded to two decimals by
  \<open>round\<close>, and that rate is the one left in the cache; in any other currency the amount is
  the price in dollars. The rate is taken below \<open>2^1000\<close> in magnitude, so that the
  product is a finite double. In particular the scenario of the claim holds under the demo
  rate 82.
\<close>

theorem calculate_price_rules:
  assumes finite_rate: "\<bar>fst (get_rate env)\<bar> < 2 ^ 1000"
  shows
  "fst (calculate_price env svc confidence_pct m loc) =
     ((if chosen_currency m loc = ''INR''
       then py_round (fmul (discounted_usd svc (tier_discount confidence_pct + loyalty_bonus m))
                           (fst (get_rate env))) 2
       else discounted_usd svc (tier_discount confidence_pct + loyalty_bonus m)),
      tier_discount confidence_pct + loyalty_bonus m,
      chosen_currency m loc)
   \<and> snd (calculate_price env svc confidence_pct m loc) =
       (if chosen_currency m loc = ''INR'' then Some (fst (get_rate env)) else fx_cache env)
   \<and> calculate_price demo_fx ''facial'' 76 None (Some ''vijayawada'')
       = ((py_round (fmul (fmul 27 (fl (90 / 100))) 82) 2, 10, ''INR''), Some 82)"
proof -
  let ?d = "tier_discount confidence_pct + loyalty_bonus m"
  have general: "calculate_price env svc confidence_pct m loc =
     (if chosen_currency m loc = ''INR''
      then ((py_round (fmul (discounted_usd svc ?d) (fst (get_rate env))) 2, ?d,
             chosen_currency m loc), snd (get_rate env))
      else ((discounted_usd svc ?d, ?d, chosen_currency m loc), fx_cache env))"
    unfolding calculate_price_def Let_def code_discount chosen_currency_eq
      base_price_def [symmetric] final_usd_nearest
    by (simp add: case_prod_beta)
  have scenario: "calculate_price demo_fx ''facial'' 76 None (Some ''vijayawada'')
       = ((py_round (fmul (fmul 27 (fl (90 / 100))) 82) 2, 10, ''INR''), Some 82)"
    by code_simp
  show ?thesis
    by (simp add: general get_rate_caches scenario)
qed

text \<open>
  Claim C9 as stated fails for a currency given in lower case: the claim's currency is
  \<open>eur\<close>, the code returns \<open>EUR\<close>.
\<close>

theorem calculate_price_currency_counterexample:
  "snd (snd (fst (calculate_price demo_fx ''spa'' 95 (Some [(''currency'', ''eur'')]) None))) = ''EUR''
   \<and> claimed_currency (Some [(''currency'', ''eur'')]) None = ''eur''
   \<and> ''EUR'' \<noteq> ''eur''"
  by code_simp

theorem calculate_price_rules_witness:
  "fst (calculate_price demo_fx ''spa'' 95 (Some [(''loyalty_tier'', ''gold'')]) (Some ''Mumbai''))
     = (3280, 20, ''INR'')"
proof -
  have rate: "fst (get_rate demo_fx) = 82" by code_simp
  then have range: "\<bar>fst (get_rate demo_fx)\<bar> < 2 ^ 1000" by simp
  have "chosen_currency (Some [(''loyalty_tier'', ''gold'')]) (Some ''Mumbai'') = ''INR''"
    by code_simp
  moreover have "tier_discount 95 + loyalty_bonus (Some [(''loyalty_tier'', ''gold'')]) = 20"
    by code_simp
  moreover have "py_round (fmul (discounted_usd ''spa'' 20) 82) 2 = 3280" by code_simp
  ultimately show ?thesis
    using calculate_price_rules [OF range, of "''spa''" 95 "Some [(''loyalty_tier'', ''gold'')]" "Some ''Mumbai''"]
    by (simp add: rate)
qed

text \<open>
  A cached rate of 83.33: the float product 42.5 * 83.33 lies just above the decimal tie,
  and the amount is 3541.53.
\<close>

lemma calculate_price_above_tie:
  "fst (calculate_price \<lparr>fx_cache = Some (8333 / 100), fx_api_key = None, fx_live = None\<rparr>
          ''spa'' 95 None (Some ''delhi''))
     = (fl (354153 / 100), 15, ''INR'')"
  by code_simp

lemma missing_fields_count: "length (missing_fields state) = missingFieldCount state"
  by (simp add: missing_fields_def missingFieldCount_def)

lemma fmul_commute: "fmul x y = fmul y x"
  by (simp add: fmul_def mult.commute)

lemma conf_values_length: "length (conf_values al) = length al"
  by (induction al) simp_all

lemma conf_values_empty: "(conf_values al = []) = (al = [])"
  by (cases al) simp_all

text \<open>The score of the breakdown, as the code computes it.\<close>

lemma score_computed:
  "score (compute_explainability_score fsum state) =
     py_round
       (fmul (max 0 (min 1
          (fmul (if conf_values (confidences state) \<noteq> []
                 then fdiv (fsum (conf_values (confidences state)))
                        (fl (of_nat (length (conf_values (confidences state)))))
                 else 0)
                (fsub (fsub 1 (min (fmul (fl (of_nat (length (ambiguities state)))) (fl (15 / 100)))
                                   (fl (45 / 100))))
                      (min (fmul (fl (of_nat (length (missing_fields state)))) (fl (1 / 10)))
                           (fl (3 / 10)))))))
          100) 2"
  by (simp add: compute_explainability_score_def Let_def)

lemma claimed_score_computed:
  "py_round (claimed_score fsum state) 2 = score (compute_explainability_score fsum state)"
proof -
  have avg: "(if conf_values (confidences state) \<noteq> []
              then fdiv (fsum (conf_values (confidences state)))
                     (fl (of_nat (length (conf_values (confidences state)))))
              else 0) = avgConf fsum state"
    by (simp add: avgConf_def conf_values_length conf_values_empty)
  have ap: "min (fmul (fl (of_nat (length (ambiguities state)))) (fl (15 / 100))) (fl (45 / 100))
            = ambiguityPenalty state"
    by (simp add: ambiguityPenalty_def fmul_commute)
  have mp: "min (fmul (fl (of_nat (missingFieldCount state))) (fl (1 / 10))) (fl (3 / 10))
            = missingPenalty state"
    by (simp add: missingPenalty_def fmul_commute)
  show ?thesis
    unfolding score_computed avg missing_fields_count ap mp claimed_score_def
    by simp
qed

text \<open>
  Claim C8, as amended. The score returned is the claim's value, computed on doubles and
  rounded to two decimals by \<open>round\<close>: the average of the confidences (their \<open>sum\<close>
  divided by their number, 0 when there is none) times one less the two penalties,
  clamped to the interval from 0 to 1 and scaled to 100. It holds whatever \<open>sum\<close>
  computes.
\<close>

theorem explainability_score_formula:
  "score (compute_explainability_score fsum state) = py_round (claimed_score fsum state) 2"
  by (simp add: claimed_score_computed)

text \<open>
  The claim's value on the state with every field set and one ambiguity, with the sum from
  the left: the double 73.31249999999999, which \<open>round\<close> takes to the double 73.31.
\<close>

lemma claimed_score_demo:
  "claimed_score sum_left demo_state = 5158908557524991 / 70368744177664"
  by code_simp

lemma rounded_score_demo:
  "py_round (5158908557524991 / 70368744177664) 2 = 1289683158916137 / 17592186044416"
  by code_simp

text \<open>
  Claim C8 as stated fails on that state: the claim's value is above 73.312 (it is 73.3125
  in exact arithmetic), the score returned is the double 73.31, below 73.311.
\<close>

theorem explainability_score_counterexample:
  "score (compute_explainability_score sum_left demo_state) = 1289683158916137 / 17592186044416
   \<and> 73312 / 1000 < claimed_score sum_left demo_state
   \<and> score (compute_explainability_score sum_left demo_state) < 73311 / 1000
   \<and> score (compute_explainability_score sum_left demo_state) \<noteq> claimed_score sum_left demo_state"
  by (simp add: claimed_score_computed [symmetric] claimed_score_demo rounded_score_demo)

theorem explainability_score_formula_witness:
  "score (compute_explainability_score sum_left demo_state) = 1289683158916137 / 17592186044416"
  using explainability_score_formula [of sum_left demo_state]
  by (simp add: claimed_score_demo rounded_score_demo)

text \<open>
  With a second ambiguity token and the sum from the left, the float score
  60.37499999999999 lies just below the decimal tie and is rounded to the double 60.37.
\<close>

lemma explainability_below_tie:
  "claimed_score sum_left (demo_state\<lparr>ambiguities := [''evening'', ''night'']\<rparr>)
     = 8497025859452927 / 140737488355328
   \<and> py_round (8497025859452927 / 140737488355328) 2 = 8496322172011151 / 140737488355328"
  by code_simp

section \<open>Properties of the parsers and of the extraction\<close>

text \<open>
  The date parser does return, with a date or none, while the clock is before the year
  9999; an empty text is no time.
\<close>

lemma add_one_day_returns: "year today < 9999 \<Longrightarrow> \<exists>d. add_one_day today = Inr d"
  by (simp add: add_one_day_def)

lemma parse_date_returns:
  assumes "year today < 9999"
  shows "\<exists>r. parse_date today text = Inr r"
proof -
  obtain d where "add_one_day today = Inr d"
    using add_one_day_returns [OF assms] by blast
  then show ?thesis
    by (simp add: parse_date_def Let_def split: option.splits)
qed

lemma normalize_time_empty: "normalize_time [] = Inr None"
  by (simp add: normalize_time_def)

text \<open>
  Claim C7 fails on the code: \<open>normalize_time\<close> raises on a text whose hour is out of
  range, here 13 pm, which becomes hour 25.
\<close>

theorem normalize_time_raises:
  "normalize_time ''13pm'' = Inl (ValueError ''hour must be in 0..23'')"
  by code_simp

text \<open>
  No step of the extraction writes the sequence of ambiguities: it is empty in every
  state returned.
\<close>

lemma amb_service_detection: "ambiguities (service_detection ss text v) = ambiguities v"
  by (induction ss arbitrary: v) simp_all

lemma amb_city_detection: "ambiguities (city_detection cs text v) = ambiguities v"
  by (induction cs arbitrary: v) simp_all

lemma amb_location_pattern: "ambiguities (location_pattern text v) = ambiguities v"
  by (simp add: location_pattern_def Let_def split: option.splits)

lemma amb_early_steps:
  "ambiguities (service_refinement text v) = ambiguities v"
  "ambiguities (intent_detection text v) = ambiguities v"
  "ambiguities (delegation text v) = ambiguities v"
  by (simp_all add: service_refinement_def intent_detection_def delegation_def)

lemma amb_date_detection: "date_detection today text v = Inr w \<Longrightarrow> ambiguities w = ambiguities v"
  by (auto simp: date_detection_def split: if_splits sum.splits)

lemma amb_time_detection: "time_detection text v = Inr w \<Longrightarrow> ambiguities w = ambiguities v"
  by (auto simp: time_detection_def split: if_splits sum.splits option.splits)

lemma amb_process_message:
  assumes "process_message today msg v = Inr w"
  shows "ambiguities w = ambiguities v"
proof -
  define lowered where "lowered = lower (case content msg of None \<Rightarrow> [] | Some c \<Rightarrow> c)"
  define v5 where "v5 = service_refinement lowered (service_detection SERVICES lowered
     (intent_detection lowered (delegation lowered (location_pattern lowered v))))"
  obtain v6 where d: "date_detection today lowered v5 = Inr v6"
    using assms unfolding process_message_def Let_def lowered_def v5_def
    by (auto split: sum.splits)
  obtain v7 where t: "time_detection lowered v6 = Inr v7"
    and w: "w = city_detection CITIES lowered v7"
    using assms d unfolding process_message_def Let_def lowered_def v5_def
    by (auto split: sum.splits)
  have "ambiguities v5 = ambiguities v"
    unfolding v5_def
    by (simp only: amb_early_steps amb_service_detection amb_location_pattern)
  with amb_date_detection [OF d] amb_time_detection [OF t] show ?thesis
    by (simp add: w amb_city_detection)
qed

lemma amb_process_messages:
  "process_messages today msgs v = Inr w \<Longrightarrow> ambiguities w = ambiguities v"
proof (induction msgs arbitrary: v)
  case Nil
  then show ?case by simp
next
  case (Cons msg msgs)
  then obtain v' where m: "process_message today msg v = Inr v'"
    and rest: "process_messages today msgs v' = Inr w"
    by (auto split: sum.splits)
  show ?case
    using amb_process_message [OF m] Cons.IH [OF rest] by simp
qed

lemma amb_defaults:
  "ambiguities (default_service v) = ambiguities v"
  "ambiguities (default_date today_iso v) = ambiguities v"
  "ambiguities (default_location v) = ambiguities v"
  by (simp_all add: default_service_def default_date_def default_location_def)

lemma amb_default_time: "ambiguities (default_time db v) = ambiguities v"
  by (simp add: default_time_def static_time_def Let_def split: sum.splits option.splits)

lemma amb_delegation_defaults: "ambiguities (delegation_defaults today db v) = ambiguities v"
  by (simp add: delegation_defaults_def amb_defaults amb_default_time)

lemma ambiguities_never_recorded:
  "extract_booking_state today db msgs = Inr r \<Longrightarrow> ambiguities r = []"
proof -
  assume "extract_booking_state today db msgs = Inr r"
  then obtain v where v: "process_messages today msgs initial_vars = Inr v"
    and r: "r = finish (delegation_defaults today db v)"
    by (auto simp: extract_booking_state_def split: sum.splits)
  have "ambiguities v = []"
    using amb_process_messages [OF v] by (simp add: initial_vars_def)
  then show ?thesis
    by (simp add: r finish_def booking_state.truncate_def amb_delegation_defaults)
qed

text \<open>
  Claim C1 fails on the code: on the scenario of the claim the time is the zero-padded
  \<open>06:00 PM\<close>, at confidence 0.7, and the sequence of ambiguities is empty.
\<close>

theorem fuzzy_time_scenario:
  "map_sum id (\<lambda>s. (time s, map_of (confidences s) ''time'', ambiguities s))
     (extract_booking_state today0 (Inr []) [user_says ''Book me a salon tomorrow evening''])
   = Inr (Some ''06:00 PM'', Some (7 / 10), [])"
  by code_simp

lemmas conf_simps = conf_of_def update_conv'

lemmas keeps_defs = keeps_fields_def field_kept_def service_kept_def

lemma field_kept_trans:
  "field_kept x cx y cy \<Longrightarrow> field_kept y cy z cz \<Longrightarrow> field_kept x cx z cz"
  by (auto simp: field_kept_def split: if_splits)

lemma service_kept_trans:
  "service_kept x cx y cy \<Longrightarrow> service_kept y cy z cz \<Longrightarrow> service_kept x cx z cz"
  by (auto simp: service_kept_def truthy_def split: if_splits)

lemma keeps_refl: "keeps_fields v v"
  by (simp add: keeps_defs)

lemma keeps_trans: "keeps_fields u v \<Longrightarrow> keeps_fields v w \<Longrightarrow> keeps_fields u w"
  unfolding keeps_fields_def
  by (blast intro: field_kept_trans service_kept_trans)

lemma keeps_location_pattern: "keeps_fields v (location_pattern text v)"
  by (auto simp: keeps_defs location_pattern_def Let_def conf_simps split: option.splits)

lemma keeps_delegation: "keeps_fields v (delegation text v)"
  by (simp add: keeps_defs delegation_def conf_simps)

lemma keeps_intent: "keeps_fields v (intent_detection text v)"
  by (simp add: keeps_defs intent_detection_def conf_simps)

lemma keeps_service_detection: "keeps_fields v (service_detection ss text v)"
proof (induction ss arbitrary: v)
  case Nil
  show ?case by (simp add: keeps_refl)
next
  case (Cons s ss)
  have step: "keeps_fields v (if contains s text \<and> \<not> truthy (service v)
        then v\<lparr>service := Some s,
               confidences := AList.update ''service'' (95 / 100) (confidences v),
               explanations := explanations v @ [''Service matched by keyword '' @ [CHR 0x27] @ s @ [CHR 0x27]]\<rparr>
        else v)"
    by (simp add: keeps_defs conf_simps)
  show ?case
    using keeps_trans [OF step Cons.IH] by simp
qed

lemma keeps_service_refinement: "keeps_fields v (service_refinement text v)"
  by (simp add: keeps_defs service_refinement_def conf_simps truthy_def)

lemma keeps_date_detection: "date_detection today text v = Inr w \<Longrightarrow> keeps_fields v w"
  by (auto simp: keeps_defs date_detection_def conf_simps split: if_splits sum.splits)

lemma keeps_time_detection: "time_detection text v = Inr w \<Longrightarrow> keeps_fields v w"
  by (auto simp: keeps_defs time_detection_def conf_simps
      split: if_splits sum.splits option.splits)

lemma keeps_city_detection: "keeps_fields v (city_detection cs text v)"
proof (induction cs arbitrary: v)
  case Nil
  show ?case by (simp add: keeps_refl)
next
  case (Cons c cs)
  have step: "keeps_fields v (if contains c text \<and> \<not> truthy (location v)
        then v\<lparr>location := Some c,
               confidences := AList.update ''location'' (9 / 10) (confidences v),
               explanations := explanations v @ [''Location matched: '' @ c]\<rparr>
        else v)"
    by (simp add: keeps_defs conf_simps)
  show ?case
    using keeps_trans [OF step Cons.IH] by simp
qed

lemma keeps_process_message:
  assumes "process_message today msg v = Inr w"
  shows "keeps_fields v w"
proof -
  define lowered where "lowered = lower (case content msg of None \<Rightarrow> [] | Some c \<Rightarrow> c)"
  define v5 where "v5 = service_refinement lowered (service_detection SERVICES lowered
     (intent_detection lowered (delegation lowered (location_pattern lowered v))))"
  obtain v6 where d: "date_detection today lowered v5 = Inr v6"
    using assms unfolding process_message_def Let_def lowered_def v5_def
    by (auto split: sum.splits)
  obtain v7 where t: "time_detection lowered v6 = Inr v7"
    and w: "w = city_detection CITIES lowered v7"
    using assms d unfolding process_message_def Let_def lowered_def v5_def
    by (auto split: sum.splits)
  have "keeps_fields v (location_pattern lowered v)"
    by (rule keeps_location_pattern)
  then have "keeps_fields v (delegation lowered (location_pattern lowered v))"
    using keeps_delegation by (rule keeps_trans)
  then have "keeps_fields v (intent_detection lowered (delegation lowered (location_pattern lowered v)))"
    using keeps_intent by (rule keeps_trans)
  then have "keeps_fields v (service_detection SERVICES lowered
     (intent_detection lowered (delegation lowered (location_pattern lowered v))))"
    using keeps_service_detection by (rule keeps_trans)
  then have "keeps_fields v v5"
    unfolding v5_def using keeps_service_refinement by (rule keeps_trans)
  then have "keeps_fields v v6"
    using keeps_date_detection [OF d] by (rule keeps_trans)
  then have "keeps_fields v v7"
    using keeps_time_detection [OF t] by (rule keeps_trans)
  then show ?thesis
    unfolding w using keeps_city_detection by (rule keeps_trans)
qed

lemma keeps_process_messages:
  "process_messages today msgs v = Inr w \<Longrightarrow> keeps_fields v w"
proof (induction msgs arbitrary: v)
  case Nil
  then show ?case by (simp add: keeps_refl)
next
  case (Cons msg msgs)
  then obtain v' where m: "process_message today msg v = Inr v'"
    and rest: "process_messages today msgs v' = Inr w"
    by (auto split: sum.splits)
  show ?case
    using keeps_process_message [OF m] Cons.IH [OF rest] keeps_trans by blast
qed

lemma process_messages_append:
  "process_messages today (earlier @ later) v =
     (case process_messages today earlier v of
        Inl e \<Rightarrow> Inl e
      | Inr v' \<Rightarrow> process_messages today later v')"
  by (induction earlier arbitrary: v) (auto split: sum.splits)

lemma keeps_default_service: "keeps_fields v (default_service v)"
  by (simp add: keeps_defs default_service_def conf_simps)

lemma keeps_default_date: "keeps_fields v (default_date today_iso v)"
  by (simp add: keeps_defs default_date_def conf_simps)

lemma keeps_default_time: "keeps_fields v (default_time db v)"
  by (auto simp: keeps_defs default_time_def static_time_def Let_def conf_simps
      split: sum.splits option.splits)

lemma keeps_default_location: "keeps_fields v (default_location v)"
  by (simp add: keeps_defs default_location_def conf_simps)

lemma keeps_delegation_defaults: "keeps_fields v (delegation_defaults today db v)"
proof (cases "delegated v")
  case False
  then show ?thesis by (simp add: delegation_defaults_def keeps_refl)
next
  case True
  have "keeps_fields v (default_service v)"
    by (rule keeps_default_service)
  then have "keeps_fields v (default_date (isoformat today) (default_service v))"
    using keeps_default_date by (rule keeps_trans)
  then have "keeps_fields v (default_time db (default_date (isoformat today) (default_service v)))"
    using keeps_default_time by (rule keeps_trans)
  then have "keeps_fields v (default_location
      (default_time db (default_date (isoformat today) (default_service v))))"
    using keeps_default_location by (rule keeps_trans)
  with True show ?thesis by (simp add: delegation_defaults_def)
qed

lemma keeps_finish: "keeps_fields v (finish v)"
  by (simp add: keeps_defs finish_def booking_state.truncate_def conf_of_def)

text \<open>
  Claim C2. Whatever the turns so far have set among service, date, time and location is
  kept, with its confidence, by every later turn and by the delegation defaults after the
  last turn; the one exception is the generic service \<open>appointment\<close>, which a later
  turn may replace by \<open>facial\<close> or \<open>dental\<close> at confidence 0.9, and since these are
  not \<open>appointment\<close> they are kept from then on.
\<close>

theorem monotone_accumulation:
  assumes earlier: "process_messages today earlier initial_vars = Inr v"
    and final: "extract_booking_state today db (earlier @ later) = Inr r"
  shows "\<exists>w. process_messages today later v = Inr w
             \<and> process_messages today (earlier @ later) initial_vars = Inr w
             \<and> r = finish (delegation_defaults today db w)
             \<and> keeps_fields v w \<and> keeps_fields w r \<and> keeps_fields v r"
proof -
  from final obtain w where all: "process_messages today (earlier @ later) initial_vars = Inr w"
    and r: "r = finish (delegation_defaults today db w)"
    by (auto simp: extract_booking_state_def split: sum.splits)
  from all earlier have later: "process_messages today later v = Inr w"
    by (simp add: process_messages_append)
  have vw: "keeps_fields v w"
    by (rule keeps_process_messages [OF later])
  have wr: "keeps_fields w r"
    unfolding r using keeps_delegation_defaults keeps_finish by (rule keeps_trans)
  from vw wr have "keeps_fields v r" by (rule keeps_trans)
  with later all r vw wr show ?thesis by blast
qed

theorem monotone_accumulation_witness:
  "\<exists>v r. process_messages today0 kept_conversation initial_vars = Inr v
      \<and> extract_booking_state today0 (Inr []) (kept_conversation @ later_conversation) = Inr r
      \<and> service v = Some ''appointment'' \<and> date v = Some ''2026-11-04''
      \<and> service r = Some ''dental'' \<and> date r = Some ''2026-11-04''
      \<and> keeps_fields v r"
proof -
  have "case process_messages today0 kept_conversation initial_vars of
          Inl e \<Rightarrow> False
        | Inr v \<Rightarrow> service v = Some ''appointment'' \<and> date v = Some ''2026-11-04''"
    by code_simp
  then obtain v where v: "process_messages today0 kept_conversation initial_vars = Inr v"
    "service v = Some ''appointment''" "date v = Some ''2026-11-04''"
    by (auto split: sum.splits)
  have "case extract_booking_state today0 (Inr []) (kept_conversation @ later_conversation) of
          Inl e \<Rightarrow> False
        | Inr r \<Rightarrow> service r = Some ''dental'' \<and> date r = Some ''2026-11-04''"
    by code_simp
  then obtain r where r: "extract_booking_state today0 (Inr []) (kept_conversation @ later_conversation) = Inr r"
    "service r = Some ''dental''" "date r = Some ''2026-11-04''"
    by (auto split: sum.splits)
  from monotone_accumulation [OF v(1) r(1)] v r show ?thesis by blast
qed

lemma flags_service_detection: "flags_clear (service_detection ss text v) = flags_clear v"
  by (induction ss arbitrary: v) (simp_all add: flags_clear_def)

lemma flags_city_detection: "flags_clear (city_detection cs text v) = flags_clear v"
  by (induction cs arbitrary: v) (simp_all add: flags_clear_def)

lemma flags_location_pattern: "flags_clear (location_pattern text v) = flags_clear v"
  by (simp add: flags_clear_def location_pattern_def Let_def split: option.splits)

lemma flags_delegation: "flags_clear (delegation text v) = flags_clear v"
  by (simp add: flags_clear_def delegation_def)

lemma flags_intent: "flags_clear (intent_detection text v) = flags_clear v"
  by (simp add: flags_clear_def intent_detection_def)

lemma flags_service_refinement: "flags_clear (service_refinement text v) = flags_clear v"
  by (simp add: flags_clear_def service_refinement_def)

lemma flags_date_detection: "date_detection today text v = Inr w \<Longrightarrow> flags_clear w = flags_clear v"
  by (auto simp: flags_clear_def date_detection_def split: if_splits sum.splits)

lemma flags_time_detection: "time_detection text v = Inr w \<Longrightarrow> flags_clear w = flags_clear v"
  by (auto simp: flags_clear_def time_detection_def split: if_splits sum.splits option.splits)

lemma flags_process_message:
  assumes "process_message today msg v = Inr w"
  shows "flags_clear w = flags_clear v"
proof -
  define lowered where "lowered = lower (case content msg of None \<Rightarrow> [] | Some c \<Rightarrow> c)"
  define v5 where "v5 = service_refinement lowered (service_detection SERVICES lowered
     (intent_detection lowered (delegation lowered (location_pattern lowered v))))"
  obtain v6 where d: "date_detection today lowered v5 = Inr v6"
    using assms unfolding process_message_def Let_def lowered_def v5_def
    by (auto split: sum.splits)
  obtain v7 where t: "time_detection lowered v6 = Inr v7"
    and w: "w = city_detection CITIES lowered v7"
    using assms d unfolding process_message_def Let_def lowered_def v5_def
    by (auto split: sum.splits)
  have "flags_clear v5 = flags_clear v"
    unfolding v5_def
    by (simp only: flags_service_refinement flags_service_detection flags_intent
        flags_delegation flags_location_pattern)
  with flags_date_detection [OF d] flags_time_detection [OF t] show ?thesis
    by (simp add: w flags_city_detection)
qed

lemma flags_process_messages:
  "process_messages today msgs v = Inr w \<Longrightarrow> flags_clear w = flags_clear v"
proof (induction msgs arbitrary: v)
  case Nil
  then show ?case by simp
next
  case (Cons msg msgs)
  then obtain v' where m: "process_message today msg v = Inr v'"
    and rest: "process_messages today msgs v' = Inr w"
    by (auto split: sum.splits)
  show ?case
    using flags_process_message [OF m] Cons.IH [OF rest] by simp
qed

lemma flags_initial: "flags_clear initial_vars"
  by (simp add: flags_clear_def initial_vars_def)

lemma default_service_fields:
  "service (default_service v) = (if truthy (service v) then service v else Some ''facial'')"
  "service_auto_selected (default_service v) = (service_auto_selected v \<or> \<not> truthy (service v))"
  "conf_of (default_service v) k =
     (if k = ''service'' \<and> \<not> truthy (service v) then Some (6 / 10) else conf_of v k)"
  "date (default_service v) = date v" "time (default_service v) = time v"
  "location (default_service v) = location v"
  "explicit_location (default_service v) = explicit_location v"
  "location_auto_selected (default_service v) = location_auto_selected v"
  "delegated (default_service v) = delegated v"
  by (simp_all add: default_service_def conf_simps)

lemma default_date_fields:
  "date (default_date today_iso v) = (if truthy (date v) then date v else Some today_iso)"
  "conf_of (default_date today_iso v) k =
     (if k = ''date'' \<and> \<not> truthy (date v) then Some (6 / 10) else conf_of v k)"
  "service (default_date today_iso v) = service v" "time (default_date today_iso v) = time v"
  "location (default_date today_iso v) = location v"
  "explicit_location (default_date today_iso v) = explicit_location v"
  "service_auto_selected (default_date today_iso v) = service_auto_selected v"
  "location_auto_selected (default_date today_iso v) = location_auto_selected v"
  "delegated (default_date today_iso v) = delegated v"
  by (simp_all add: default_date_def conf_simps)

lemma default_time_chosen:
  "truthy (service v) \<Longrightarrow> time (default_time db v) =
     (if truthy (time v) then time v else Some (fst (delegated_time db (service v) (date v))))"
  "truthy (service v) \<Longrightarrow> conf_of (default_time db v) k =
     (if k = ''time'' \<and> \<not> truthy (time v)
      then Some (snd (delegated_time db (service v) (date v))) else conf_of v k)"
  by (simp_all add: default_time_def static_time_def delegated_time_def Let_def conf_simps
      split: sum.splits option.splits)

lemma default_time_fields:
  "service (default_time db v) = service v" "date (default_time db v) = date v"
  "location (default_time db v) = location v"
  "explicit_location (default_time db v) = explicit_location v"
  "service_auto_selected (default_time db v) = service_auto_selected v"
  "location_auto_selected (default_time db v) = location_auto_selected v"
  "delegated (default_time db v) = delegated v"
  by (simp_all add: default_time_def static_time_def delegated_time_def Let_def conf_simps
      split: sum.splits option.splits)

lemma default_location_fields:
  "location (default_location v) =
     (if truthy (location v) then location v
      else if truthy (explicit_location v) then explicit_location v else Some (hd CITIES))"
  "location_auto_selected (default_location v) =
     (location_auto_selected v \<or> (\<not> truthy (location v) \<and> \<not> truthy (explicit_location v)))"
  "conf_of (default_location v) k =
     (if k = ''location'' \<and> \<not> truthy (location v)
      then Some (if truthy (explicit_location v) then 8 / 10 else 5 / 10) else conf_of v k)"
  "service (default_location v) = service v" "date (default_location v) = date v"
  "time (default_location v) = time v"
  "service_auto_selected (default_location v) = service_auto_selected v"
  "delegated (default_location v) = delegated v"
  by (simp_all add: default_location_def conf_simps)

lemma finish_fields:
  "service (finish v) = service v" "date (finish v) = date v" "time (finish v) = time v"
  "location (finish v) = location v" "delegated (finish v) = delegated v"
  "service_auto_selected (finish v) = service_auto_selected v"
  "location_auto_selected (finish v) = location_auto_selected v"
  "conf_of (finish v) k = conf_of v k" "confidences (finish v) = confidences v"
  by (simp_all add: finish_def booking_state.truncate_def conf_of_def)

lemma default_service_truthy: "truthy (service (default_service v))"
  by (simp add: default_service_fields truthy_def)

text \<open>
  The defaults after the loop, field by field. With \<open>v\<close> the variables after the last
  turn: if the user has not delegated, the four fields, their confidences and the two
  flags are those of \<open>v\<close>, the flags unset. If the user has delegated, each field set in
  \<open>v\<close> is kept and each unset field is filled: the service by \<open>facial\<close> at 0.6, flagged;
  the date by today's date at 0.6; the time by the slot \<open>find_next_available\<close> finds for
  the resolved service and date at 0.75, else by \<open>10:00 AM\<close> at 0.6, also when the
  lookup raises; the location by the value of \<open>explicit_location\<close> at 0.8 when it is
  non-empty, else by the first known city at 0.5, flagged.
\<close>

lemma delegation_defaults_fill:
  assumes turns: "process_messages today msgs initial_vars = Inr v"
  shows "\<exists>r. extract_booking_state today db msgs = Inr r
     \<and> delegated r = delegated v
     \<and> (if delegated v
         then service r = (if truthy (service v) then service v else Some ''facial'')
            \<and> conf_of r ''service'' = (if truthy (service v) then conf_of v ''service'' else Some (6 / 10))
            \<and> service_auto_selected r = (\<not> truthy (service v))
            \<and> date r = (if truthy (date v) then date v else Some (isoformat today))
            \<and> conf_of r ''date'' = (if truthy (date v) then conf_of v ''date'' else Some (6 / 10))
            \<and> time r = (if truthy (time v) then time v
                         else Some (fst (delegated_time db (service r) (date r))))
            \<and> conf_of r ''time'' = (if truthy (time v) then conf_of v ''time''
                                      else Some (snd (delegated_time db (service r) (date r))))
            \<and> location r = (if truthy (location v) then location v
                             else if truthy (explicit_location v) then explicit_location v
                             else Some (hd CITIES))
            \<and> conf_of r ''location'' = (if truthy (location v) then conf_of v ''location''
                                          else if truthy (explicit_location v) then Some (8 / 10)
                                          else Some (5 / 10))
            \<and> location_auto_selected r = (\<not> truthy (location v) \<and> \<not> truthy (explicit_location v))
         else service r = service v \<and> date r = date v \<and> time r = time v
            \<and> location r = location v \<and> confidences r = confidences v
            \<and> service_auto_selected r = False \<and> location_auto_selected r = False)"
proof -
  have flags: "\<not> service_auto_selected v" "\<not> location_auto_selected v"
    using flags_process_messages [OF turns] flags_initial by (simp_all add: flags_clear_def)
  have r: "extract_booking_state today db msgs = Inr (finish (delegation_defaults today db v))"
    by (simp add: extract_booking_state_def turns)
  show ?thesis
  proof (cases "delegated v")
    case False
    with flags show ?thesis
      by (simp add: r delegation_defaults_def finish_fields)
  next
    case True
    let ?v1 = "default_service v"
    let ?v2 = "default_date (isoformat today) ?v1"
    have s2: "truthy (service ?v2)"
      by (simp add: default_date_fields default_service_truthy)
    from True flags show ?thesis
      by (simp add: r delegation_defaults_def finish_fields default_location_fields
          default_time_fields default_time_chosen [OF s2] default_date_fields default_service_fields)
  qed
qed

lemma delegation_defaults_example:
  "\<exists>r. extract_booking_state today0 (Inr []) [user_says ''you decide''] = Inr r
     \<and> delegated r \<and> service r = Some ''facial'' \<and> conf_of r ''service'' = Some (6 / 10)
     \<and> service_auto_selected r
     \<and> date r = Some (isoformat today0) \<and> conf_of r ''date'' = Some (6 / 10)
     \<and> time r = Some (fst (delegated_time (Inr []) (service r) (date r)))
     \<and> location r = Some (hd CITIES) \<and> conf_of r ''location'' = Some (5 / 10)
     \<and> location_auto_selected r"
proof -
  have "case process_messages today0 [user_says ''you decide''] initial_vars of
          Inl e \<Rightarrow> False
        | Inr v \<Rightarrow> delegated v \<and> service v = None \<and> date v = None \<and> time v = None
                  \<and> location v = None \<and> explicit_location v = None"
    by code_simp
  then obtain v where v: "process_messages today0 [user_says ''you decide''] initial_vars = Inr v"
    "delegated v" "service v = None" "date v = None" "time v = None" "location v = None"
    "explicit_location v = None"
    by (auto split: sum.splits)
  from delegation_defaults_fill [OF v(1), of "Inr []"] v(2-) show ?thesis
    by (auto simp: truthy_def)
qed

text \<open>
  Claim C3 fails on the code: the first turn stashes the candidate \<open>goa\<close>; the second
  turn's \<open>in\<close> is followed by blanks only, and the empty candidate it captures replaces
  the stash; the user has delegated, and the location becomes the first known city at
  confidence 0.5, flagged as chosen by the assistant, not the candidate seen earlier.
\<close>

theorem stashed_location_overwritten:
  "map_sum id explicit_location (process_messages today0 (take 1 goa_conversation) initial_vars)
     = Inr (Some ''goa'')
   \<and> map_sum id (\<lambda>s. (delegated s, location s, map_of (confidences s) ''location'',
                        location_auto_selected s))
        (extract_booking_state today0 (Inr []) goa_conversation)
     = Inr (True, Some ''bangalore'', Some (5 / 10), True)"
  by code_simp

end
